theory Spec2Isabelle
  imports Complex_Main
begin

section \<open>Common conventions\<close>

text \<open>
  The server is written in Python. Python's unbounded \<open>int\<close> is modelled by \<open>int\<close>
  (or \<open>nat\<close> for a counter that starts at zero and is only incremented), and its
  \<open>float\<close> by \<open>real\<close>: the theorems below are about the arithmetic the code
  writes down, not about binary rounding. A reading of the clock (\<open>time.time()\<close>,
  \<open>datetime.now()\<close>) is an explicit argument of the function that reads it (the
  readings one call makes are taken at the same instant), and a draw of the random
  generator is an explicit argument as well. Logging and metric gauges are left out. An exception is a value of
  the result type.
\<close>

datatype py_error = ZeroDivisionError

section \<open>Backoff schedule (rate\_limiting/backoff.py)\<close>

datatype BackoffStrategy = FIXED | LINEAR | EXPONENTIAL | FIBONACCI | POLYNOMIAL | CUSTOM

record BackoffConfig =
  strategy :: BackoffStrategy
  initial_delay :: real
  max_delay :: real
  max_attempts :: int
  exponential_base :: real
  exponential_cap :: real
  linear_increment :: real
  polynomial_degree :: int
  fibonacci_multiplier :: real
  jitter :: bool
  jitter_type :: string
  jitter_max_ratio :: real
  custom_function :: "(nat \<Rightarrow> real \<Rightarrow> real) option"
  total_timeout :: "real option"

text \<open>\<open>random.uniform(a, b)\<close> is \<open>a + (b - a) * random()\<close>; \<open>u\<close> is the draw.\<close>

definition uniform :: "real \<Rightarrow> real \<Rightarrow> real \<Rightarrow> real" where
  "uniform a b u = a + (b - a) * u"

text \<open>The local function \<open>fibonacci\<close> of \<open>_fibonacci_delay\<close>: the loop runs over
  \<open>range(2, n + 1)\<close>, that is \<open>n - 1\<close> times.\<close>

fun fibonacci_loop :: "nat \<Rightarrow> int \<Rightarrow> int \<Rightarrow> int" where
  "fibonacci_loop 0 a b = b"
| "fibonacci_loop (Suc k) a b = fibonacci_loop k b (a + b)"

definition fibonacci :: "nat \<Rightarrow> int" where
  "fibonacci n = (if n \<le> 1 then int n else fibonacci_loop (n - 1) 0 1)"

definition fibonacci_delay :: "BackoffConfig \<Rightarrow> nat \<Rightarrow> real" where
  "fibonacci_delay cfg attempt =
     initial_delay cfg * fibonacci_multiplier cfg * real_of_int (fibonacci (attempt + 1))"

text \<open>\<open>attempt ** polynomial_degree\<close> on Python integers: a negative exponent gives a
  float, and raises for base zero.\<close>

definition py_int_pow :: "nat \<Rightarrow> int \<Rightarrow> py_error + real" where
  "py_int_pow a d =
     (if 0 \<le> d then Inr (real a ^ nat d)
      else if a = 0 then Inl ZeroDivisionError
      else Inr (1 / real a ^ nat (- d)))"

text \<open>The strategy part of \<open>_calculate_delay\<close> (before the \<open>max_delay\<close> limit).\<close>

definition strategy_delay :: "BackoffConfig \<Rightarrow> nat \<Rightarrow> py_error + real" where
  "strategy_delay cfg attempt =
     (case strategy cfg of
        FIXED \<Rightarrow> Inr (initial_delay cfg)
      | LINEAR \<Rightarrow> Inr (initial_delay cfg + real attempt * linear_increment cfg)
      | EXPONENTIAL \<Rightarrow>
          Inr (min (initial_delay cfg * exponential_base cfg ^ attempt) (exponential_cap cfg))
      | FIBONACCI \<Rightarrow> Inr (fibonacci_delay cfg attempt)
      | POLYNOMIAL \<Rightarrow>
          (case py_int_pow attempt (polynomial_degree cfg) of
             Inl e \<Rightarrow> Inl e
           | Inr p \<Rightarrow> Inr (initial_delay cfg * p))
      | CUSTOM \<Rightarrow>
          (case custom_function cfg of
             Some f \<Rightarrow> Inr (f attempt (initial_delay cfg))
           | None \<Rightarrow> Inr (initial_delay cfg)))"

text \<open>
  \<open>_calculate_delay\<close> with \<open>_apply_jitter\<close> inlined (the two are mutually recursive:
  decorrelated jitter recomputes the previous attempt's delay and discards the value).
  \<open>rnd k\<close> is the random draw made while computing attempt \<open>k\<close>.
\<close>

fun calculate_delay :: "BackoffConfig \<Rightarrow> (nat \<Rightarrow> real) \<Rightarrow> nat \<Rightarrow> py_error + real" where
  "calculate_delay cfg rnd attempt =
     (case strategy_delay cfg attempt of
        Inl e \<Rightarrow> Inl e
      | Inr d0 \<Rightarrow>
          (let delay = min d0 (max_delay cfg) in
           if jitter cfg then
             (if jitter_type cfg = ''full'' then
                Inr (max 0 (uniform 0 delay (rnd attempt)))
              else if jitter_type cfg = ''equal'' then
                Inr (max 0 (delay / 2 + uniform 0 (delay / 2) (rnd attempt)))
              else if jitter_type cfg = ''decorrelated'' then
                (if attempt = 0 then Inr (max 0 delay)
                 else
                   (case calculate_delay cfg rnd (attempt - 1) of
                      Inl e \<Rightarrow> Inl e
                    | Inr prev_delay \<Rightarrow>
                        Inr (max 0 (uniform (initial_delay cfg) (delay * 3) (rnd attempt)))))
              else
                Inr (max 0 (delay + uniform (- (delay * jitter_max_ratio cfg))
                                      (delay * jitter_max_ratio cfg) (rnd attempt))))
           else Inr (max 0 delay)))"

record Backoff =
  config :: BackoffConfig
  attempt_count :: nat
  start_time :: real

definition Backoff_init :: "BackoffConfig \<Rightarrow> real \<Rightarrow> Backoff" where
  "Backoff_init cfg now = \<lparr>config = cfg, attempt_count = 0, start_time = now\<rparr>"

definition Backoff_iter :: "Backoff \<Rightarrow> real \<Rightarrow> Backoff" where
  "Backoff_iter b now = b\<lparr>attempt_count := 0, start_time := now\<rparr>"

datatype next_result = Value real | StopIteration | Raised py_error

text \<open>\<open>self.config.total_timeout and ...\<close>: the deadline is set when it is neither
  \<open>None\<close> nor zero.\<close>

definition timeout_reached :: "Backoff \<Rightarrow> real \<Rightarrow> bool" where
  "timeout_reached b now =
     (case total_timeout (config b) of
        None \<Rightarrow> False
      | Some T \<Rightarrow> T \<noteq> 0 \<and> now - start_time b \<ge> T)"

definition Backoff_next :: "Backoff \<Rightarrow> real \<Rightarrow> (nat \<Rightarrow> real) \<Rightarrow> next_result \<times> Backoff" where
  "Backoff_next b now rnd =
     (if int (attempt_count b) \<ge> max_attempts (config b) then (StopIteration, b)
      else if timeout_reached b now then (StopIteration, b)
      else
        (case calculate_delay (config b) rnd (attempt_count b) of
           Inl e \<Rightarrow> (Raised e, b)
         | Inr delay \<Rightarrow> (Value delay, b\<lparr>attempt_count := attempt_count b + 1\<rparr>)))"

text \<open>Any sequence of \<open>next\<close> calls, each with its clock reading and random draws; the
  values produced, in order. The calls go on after a \<open>StopIteration\<close> or an error.\<close>

fun next_calls :: "Backoff \<Rightarrow> (real \<times> (nat \<Rightarrow> real)) list \<Rightarrow> real list" where
  "next_calls b [] = []"
| "next_calls b ((now, rnd) # rest) =
     (case Backoff_next b now rnd of
        (Value d, b') \<Rightarrow> d # next_calls b' rest
      | (_, b') \<Rightarrow> next_calls b' rest)"

text \<open>
  The retry loop of \<open>Backoff.wait\<close> and of \<open>for delay in backoff: sleep(delay)\<close>: ask
  for the next delay, sleep that long, ask again, until the iterator stops. \<open>t\<close> is the
  clock when the previous sleep ended; each round carries the time \<open>lag\<close> that passes
  before the next call (the retried work, oversleeping) and the round's random draws.
\<close>

fun wait_loop :: "Backoff \<Rightarrow> real \<Rightarrow> (real \<times> (nat \<Rightarrow> real)) list \<Rightarrow> real list" where
  "wait_loop b t [] = []"
| "wait_loop b t ((lag, rnd) # rest) =
     (case Backoff_next b (t + lag) rnd of
        (Value d, b') \<Rightarrow> d # wait_loop b' (t + lag + d) rest
      | (_, b') \<Rightarrow> [])"

definition no_draw :: "nat \<Rightarrow> real" where
  "no_draw k = 0"

definition fixed_backoff :: "real \<Rightarrow> int \<Rightarrow> BackoffConfig" where
  "fixed_backoff delay n =
     \<lparr>strategy = FIXED, initial_delay = delay, max_delay = delay, max_attempts = n,
      exponential_base = 2, exponential_cap = 300, linear_increment = 1,
      polynomial_degree = 2, fibonacci_multiplier = 1, jitter = False,
      jitter_type = ''full'', jitter_max_ratio = 1 / 10, custom_function = None,
      total_timeout = None\<rparr>"

section \<open>Quota manager (rate\_limiting/quota\_manager.py)\<close>

subsection \<open>Timestamps\<close>

text \<open>
  Every \<open>datetime\<close> of the quota manager is an aware UTC value
  (\<open>datetime.now(timezone.utc)\<close>); it is modelled by its number of microseconds since
  1970-01-01T00:00:00Z. The attributes the code reads are computed from that number:
  the hour, the date (as a day number: two dates are equal when their day numbers are),
  the weekday (Monday is 0; day 0 was a Thursday) and, through the proleptic Gregorian
  calendar, the month and the year. The clock is read once per call.
\<close>

type_synonym datetime = int

definition usec_per_hour :: int where "usec_per_hour = 3600000000"
definition usec_per_day :: int where "usec_per_day = 86400000000"

definition dt_hour :: "datetime \<Rightarrow> int" where
  "dt_hour t = (t div usec_per_hour) mod 24"

definition dt_date :: "datetime \<Rightarrow> int" where
  "dt_date t = t div usec_per_day"

definition dt_weekday :: "datetime \<Rightarrow> int" where
  "dt_weekday t = (dt_date t + 3) mod 7"

definition civil_from_days :: "int \<Rightarrow> int \<times> int \<times> int" where
  "civil_from_days z =
     (let z' = z + 719468;
          era = z' div 146097;
          doe = z' - era * 146097;
          yoe = (doe - doe div 1460 + doe div 36524 - doe div 146096) div 365;
          y = yoe + era * 400;
          doy = doe - (365 * yoe + yoe div 4 - yoe div 100);
          mp = (5 * doy + 2) div 153;
          d = doy - (153 * mp + 2) div 5 + 1;
          m = (if mp < 10 then mp + 3 else mp - 9)
      in (if m \<le> 2 then y + 1 else y, m, d))"

definition days_from_civil :: "int \<Rightarrow> int \<Rightarrow> int \<Rightarrow> int" where
  "days_from_civil y m d =
     (let y' = (if m \<le> 2 then y - 1 else y);
          era = y' div 400;
          yoe = y' - era * 400;
          doy = (153 * (if m > 2 then m - 3 else m + 9) + 2) div 5 + d - 1;
          doe = yoe * 365 + yoe div 4 - yoe div 100 + doy
      in era * 146097 + doe - 719468)"

definition dt_year :: "datetime \<Rightarrow> int" where
  "dt_year t = fst (civil_from_days (dt_date t))"

definition dt_month :: "datetime \<Rightarrow> int" where
  "dt_month t = fst (snd (civil_from_days (dt_date t)))"

subsection \<open>Limits and usage\<close>

datatype QuotaType =
    REQUESTS_PER_HOUR | REQUESTS_PER_DAY | QUERIES_PER_HOUR | QUERIES_PER_DAY
  | DATA_TRANSFER_BYTES | COMPUTE_SECONDS | STORAGE_BYTES | CONCURRENT_CONNECTIONS

fun QuotaType_value :: "QuotaType \<Rightarrow> string" where
  "QuotaType_value REQUESTS_PER_HOUR = ''requests_per_hour''"
| "QuotaType_value REQUESTS_PER_DAY = ''requests_per_day''"
| "QuotaType_value QUERIES_PER_HOUR = ''queries_per_hour''"
| "QuotaType_value QUERIES_PER_DAY = ''queries_per_day''"
| "QuotaType_value DATA_TRANSFER_BYTES = ''data_transfer_bytes''"
| "QuotaType_value COMPUTE_SECONDS = ''compute_seconds''"
| "QuotaType_value STORAGE_BYTES = ''storage_bytes''"
| "QuotaType_value CONCURRENT_CONNECTIONS = ''concurrent_connections''"

text \<open>\<open>QuotaPeriod.CUSTOM\<close> is \<open>CUSTOM_PERIOD\<close> here (\<open>CUSTOM\<close> is a backoff strategy).\<close>

datatype QuotaPeriod = HOURLY | DAILY | WEEKLY | MONTHLY | CUSTOM_PERIOD

text \<open>A \<open>QuotaLimit\<close> after \<open>__post_init__\<close>: \<open>soft_limit\<close> is an integer.\<close>

record QuotaLimit =
  quota_type :: QuotaType
  limit :: int
  period :: QuotaPeriod
  soft_limit :: int
  reset_time :: "datetime option"
  rollover_allowed :: bool
  burst_allowance :: int

text \<open>\<open>int(x)\<close> on a float truncates towards zero.\<close>

definition py_int :: "real \<Rightarrow> int" where
  "py_int x = (if 0 \<le> x then \<lfloor>x\<rfloor> else \<lceil>x\<rceil>)"

definition QuotaLimit_new ::
  "QuotaType \<Rightarrow> int \<Rightarrow> QuotaPeriod \<Rightarrow> int option \<Rightarrow> datetime option \<Rightarrow> bool \<Rightarrow> int \<Rightarrow> QuotaLimit" where
  "QuotaLimit_new qt l p soft rt roll burst =
     \<lparr>quota_type = qt, limit = l, period = p,
      soft_limit = (case soft of None \<Rightarrow> py_int (real_of_int l * (8 / 10)) | Some s \<Rightarrow> s),
      reset_time = rt, rollover_allowed = roll, burst_allowance = burst\<rparr>"

record QuotaUsage =
  usage_quota_type :: QuotaType
  current_usage :: int
  peak_usage :: int
  last_reset :: datetime
  warning_triggered :: bool
  limit_exceeded :: bool
  burst_used :: int
  rollover_balance :: int
  usage_history :: "(datetime \<times> int) list"

definition QuotaUsage_new :: "QuotaType \<Rightarrow> datetime \<Rightarrow> QuotaUsage" where
  "QuotaUsage_new qt now =
     \<lparr>usage_quota_type = qt, current_usage = 0, peak_usage = 0, last_reset = now,
      warning_triggered = False, limit_exceeded = False, burst_used = 0,
      rollover_balance = 0, usage_history = []\<rparr>"

datatype quota_exn =
    QuotaExceededError string int int "datetime option"
  | KeyError

text \<open>
  What a call of an \<open>async\<close> method comes to: it returns, it raises, or it never
  returns because it waits for a lock that its own task holds (\<open>asyncio.Lock\<close> is not
  reentrant).
\<close>

datatype 'a outcome = Returns 'a | Raises quota_exn | Deadlock

record ClientQuota =
  client_id :: string
  quota_limits :: "QuotaType \<rightharpoonup> QuotaLimit"
  quota_usage :: "QuotaType \<rightharpoonup> QuotaUsage"
  locked :: bool

definition ClientQuota_init :: "string \<Rightarrow> (QuotaType \<rightharpoonup> QuotaLimit) \<Rightarrow> datetime \<Rightarrow> ClientQuota" where
  "ClientQuota_init cid limits now =
     \<lparr>client_id = cid, quota_limits = limits,
      quota_usage = (\<lambda>qt. case limits qt of None \<Rightarrow> None | Some l \<Rightarrow> Some (QuotaUsage_new qt now)),
      locked = False\<rparr>"

text \<open>The body of \<open>reset_quota\<close> on one usage record.\<close>

definition reset_usage :: "QuotaLimit \<Rightarrow> QuotaUsage \<Rightarrow> bool \<Rightarrow> datetime \<Rightarrow> QuotaUsage" where
  "reset_usage ql u force now =
     u\<lparr>rollover_balance :=
          (if rollover_allowed ql \<and> \<not> force
           then min (max 0 (limit ql - current_usage u)) (limit ql div 2)
           else 0),
       current_usage := 0, peak_usage := 0, burst_used := 0,
       warning_triggered := False, limit_exceeded := False, last_reset := now\<rparr>"

definition reset_quota ::
  "ClientQuota \<Rightarrow> QuotaType \<Rightarrow> bool \<Rightarrow> datetime \<Rightarrow> unit outcome \<times> ClientQuota" where
  "reset_quota c qt force now =
     (if locked c then (Deadlock, c)
      else
        (case quota_limits c qt of
           None \<Rightarrow> (Returns (), c)
         | Some ql \<Rightarrow>
             (case quota_usage c qt of
                None \<Rightarrow> (Raises KeyError, c)
              | Some u \<Rightarrow>
                  (Returns (), c\<lparr>quota_usage := (quota_usage c)(qt \<mapsto> reset_usage ql u force now)\<rparr>))))"

definition reset_needed :: "QuotaLimit \<Rightarrow> QuotaUsage \<Rightarrow> datetime \<Rightarrow> bool" where
  "reset_needed ql u now =
     (case period ql of
        HOURLY \<Rightarrow> dt_hour now \<noteq> dt_hour (last_reset u) \<or> dt_date now \<noteq> dt_date (last_reset u)
      | DAILY \<Rightarrow> dt_date now \<noteq> dt_date (last_reset u)
      | WEEKLY \<Rightarrow> dt_weekday now = 0 \<and> dt_date now \<noteq> dt_date (last_reset u)
      | MONTHLY \<Rightarrow> dt_month now \<noteq> dt_month (last_reset u) \<or> dt_year now \<noteq> dt_year (last_reset u)
      | CUSTOM_PERIOD \<Rightarrow> (case reset_time ql of None \<Rightarrow> False | Some rt \<Rightarrow> now \<ge> rt))"

text \<open>\<open>_check_reset_needed\<close>; its callers hold the lock, and it calls \<open>reset_quota\<close>,
  which takes the lock again.\<close>

definition check_reset_needed ::
  "ClientQuota \<Rightarrow> QuotaType \<Rightarrow> datetime \<Rightarrow> unit outcome \<times> ClientQuota" where
  "check_reset_needed c qt now =
     (case quota_limits c qt of
        None \<Rightarrow> (Raises KeyError, c)
      | Some ql \<Rightarrow>
          (case quota_usage c qt of
             None \<Rightarrow> (Raises KeyError, c)
           | Some u \<Rightarrow>
               (if reset_needed ql u now then reset_quota c qt False now
                else (Returns (), c))))"

definition get_next_reset_time :: "QuotaLimit \<Rightarrow> datetime \<Rightarrow> datetime" where
  "get_next_reset_time ql now =
     (case period ql of
        HOURLY \<Rightarrow> (now div usec_per_hour) * usec_per_hour + usec_per_hour
      | DAILY \<Rightarrow> (now div usec_per_day) * usec_per_day + usec_per_day
      | WEEKLY \<Rightarrow>
          (let days_until_monday = (7 - dt_weekday now) mod 7;
               days = (if days_until_monday = 0 then 7 else days_until_monday)
           in (now div usec_per_day) * usec_per_day + days * usec_per_day)
      | MONTHLY \<Rightarrow>
          (if dt_month now = 12
           then days_from_civil (dt_year now + 1) 1 1 * usec_per_day
           else days_from_civil (dt_year now) (dt_month now + 1) 1 * usec_per_day)
      | CUSTOM_PERIOD \<Rightarrow>
          (case reset_time ql of Some rt \<Rightarrow> rt | None \<Rightarrow> now + usec_per_hour))"

definition trim_usage_history :: "(datetime \<times> int) list \<Rightarrow> (datetime \<times> int) list" where
  "trim_usage_history h = (if length h > 1000 then drop (length h - 1000) h else h)"

text \<open>The branch of \<open>consume_quota\<close> that grants the amount, on one usage record.\<close>

definition grant_usage :: "QuotaLimit \<Rightarrow> QuotaUsage \<Rightarrow> int \<Rightarrow> datetime \<Rightarrow> QuotaUsage" where
  "grant_usage ql u amount now =
     (let u1 = u\<lparr>current_usage := current_usage u + amount\<rparr>;
          u2 = u1\<lparr>peak_usage := max (peak_usage u1) (current_usage u1)\<rparr>;
          u3 = (if current_usage u2 > limit ql + rollover_balance u2
                then u2\<lparr>burst_used := current_usage u2 - (limit ql + rollover_balance u2)\<rparr>
                else u2);
          u4 = u3\<lparr>usage_history := trim_usage_history (usage_history u3 @ [(now, amount)])\<rparr>
      in if \<not> warning_triggered u4 \<and> current_usage u4 \<ge> soft_limit ql
         then u4\<lparr>warning_triggered := True\<rparr> else u4)"

definition available_quota :: "QuotaLimit \<Rightarrow> QuotaUsage \<Rightarrow> int" where
  "available_quota ql u =
     limit ql + rollover_balance u + (burst_allowance ql - burst_used u)"

definition consume_quota ::
  "ClientQuota \<Rightarrow> QuotaType \<Rightarrow> int \<Rightarrow> datetime \<Rightarrow> bool outcome \<times> ClientQuota" where
  "consume_quota c qt amount now =
     (if locked c then (Deadlock, c)
      else
        (case quota_limits c qt of
           None \<Rightarrow> (Returns True, c)
         | Some ql \<Rightarrow>
             (case check_reset_needed (c\<lparr>locked := True\<rparr>) qt now of
                (Deadlock, c1) \<Rightarrow> (Deadlock, c1)
              | (Raises e, c1) \<Rightarrow> (Raises e, c1\<lparr>locked := False\<rparr>)
              | (Returns x, c1) \<Rightarrow>
                  (case quota_usage c1 qt of
                     None \<Rightarrow> (Raises KeyError, c1\<lparr>locked := False\<rparr>)
                   | Some u \<Rightarrow>
                       (if current_usage u + amount \<le> available_quota ql u
                        then (Returns True,
                              c1\<lparr>quota_usage := (quota_usage c1)(qt \<mapsto> grant_usage ql u amount now),
                                 locked := False\<rparr>)
                        else (Raises (QuotaExceededError (QuotaType_value qt) (current_usage u)
                                        (available_quota ql u) (Some (get_next_reset_time ql now))),
                              c1\<lparr>quota_usage := (quota_usage c1)(qt \<mapsto> u\<lparr>limit_exceeded := True\<rparr>),
                                 locked := False\<rparr>))))))"

subsection \<open>The manager of all clients' quotas\<close>

text \<open>
  The values \<open>QuotaManager\<close> reads from \<open>config.quotas\<close> with \<open>getattr(..., default)\<close>:
  \<open>None\<close> stands for an attribute the configuration does not have.
\<close>

record QuotaSettings =
  default_requests_per_hour :: "int option"
  default_requests_per_day :: "int option"
  default_queries_per_hour :: "int option"
  default_data_transfer_mb :: "int option"
  default_concurrent_connections :: "int option"
  global_requests_per_hour :: "int option"
  global_queries_per_hour :: "int option"
  global_concurrent_connections :: "int option"

definition getattr :: "int option \<Rightarrow> int \<Rightarrow> int" where
  "getattr v dflt = (case v of None \<Rightarrow> dflt | Some x \<Rightarrow> x)"

definition get_default_quotas :: "QuotaSettings \<Rightarrow> (QuotaType \<rightharpoonup> QuotaLimit)" where
  "get_default_quotas cfg =
     [REQUESTS_PER_HOUR \<mapsto>
        QuotaLimit_new REQUESTS_PER_HOUR (getattr (default_requests_per_hour cfg) 1000)
          HOURLY (Some 800) None False 100,
      REQUESTS_PER_DAY \<mapsto>
        QuotaLimit_new REQUESTS_PER_DAY (getattr (default_requests_per_day cfg) 10000)
          DAILY (Some 8000) None True 0,
      QUERIES_PER_HOUR \<mapsto>
        QuotaLimit_new QUERIES_PER_HOUR (getattr (default_queries_per_hour cfg) 500)
          HOURLY (Some 400) None False 50,
      DATA_TRANSFER_BYTES \<mapsto>
        QuotaLimit_new DATA_TRANSFER_BYTES
          (getattr (default_data_transfer_mb cfg) 1000 * 1024 * 1024)
          DAILY (Some (800 * 1024 * 1024)) None True 0,
      CONCURRENT_CONNECTIONS \<mapsto>
        QuotaLimit_new CONCURRENT_CONNECTIONS (getattr (default_concurrent_connections cfg) 10)
          CUSTOM_PERIOD (Some 8) None False 0]"


record QuotaManager =
  client_quotas :: "string \<rightharpoonup> ClientQuota"
  default_quotas :: "QuotaType \<rightharpoonup> QuotaLimit"
  global_quotas :: "QuotaType \<rightharpoonup> QuotaLimit"
  global_usage :: "QuotaType \<rightharpoonup> QuotaUsage"


text \<open>\<open>get_client_quota\<close>: \<open>_get_custom_quotas\<close> returns \<open>None\<close>, so a new client gets
  the default limits.\<close>

definition get_client_quota :: "QuotaManager \<Rightarrow> string \<Rightarrow> datetime \<Rightarrow> ClientQuota \<times> QuotaManager" where
  "get_client_quota m cid now =
     (case client_quotas m cid of
        Some cq \<Rightarrow> (cq, m)
      | None \<Rightarrow>
          (let cq = ClientQuota_init cid (default_quotas m) now
           in (cq, m\<lparr>client_quotas := (client_quotas m)(cid \<mapsto> cq)\<rparr>)))"










definition small_settings :: QuotaSettings where
  "small_settings =
     \<lparr>default_requests_per_hour = None, default_requests_per_day = None,
      default_queries_per_hour = None, default_data_transfer_mb = None,
      default_concurrent_connections = None, global_requests_per_hour = Some 10,
      global_queries_per_hour = None, global_concurrent_connections = None\<rparr>"

text \<open>Sample states: a client with the default limits, created at time 0, and a manager
  whose global limit of requests per hour is 10, empty and after 9 requests.\<close>

definition day_client :: ClientQuota where
  "day_client = ClientQuota_init ''client'' (get_default_quotas small_settings) 0"



section \<open>Rate limiter: the token bucket (rate\_limiting/rate\_limiter.py)\<close>













section \<open>Circuit breaker (rate\_limiting/circuit\_breaker.py)\<close>






























section \<open>Database-operation wrappers (utils/async\_database.py, utils/transaction\_manager.py,
  utils/request\_context.py)\<close>

subsection \<open>The warehouse session and the request context\<close>

text \<open>
  The warehouse session behind a pooled connection is the driver's, not the
  repository's. What the wrappers rely on is modelled: the session has a current database
  and a current schema (\<open>None\<close> is SQL \<open>NULL\<close>: none selected) and an autocommit flag;
  \<open>USE DATABASE d\<close> makes \<open>d\<close> current and leaves the schema to the warehouse
  (\<open>default_schema d\<close>, a parameter of the model); \<open>USE SCHEMA s\<close> makes \<open>s\<close> current;
  \<open>SELECT CURRENT_DATABASE(), CURRENT_SCHEMA()\<close> reads both. Every driver call carries
  a flag \<open>ok\<close>: whether the driver executes it or raises; a call that raises changes
  nothing on the session.
\<close>

record Session =
  current_database :: "string option"
  current_schema :: "string option"
  autocommit :: bool

datatype db_error = DatabaseError

record RequestMetrics =
  queries_executed :: nat
  errors :: nat
  transaction_operations :: nat
  transaction_commits :: nat
  transaction_rollbacks :: nat

record RequestContext =
  database_context :: "string option"
  schema_context :: "string option"
  request_metrics :: RequestMetrics

definition RequestContext_init :: RequestContext where
  "RequestContext_init =
     \<lparr>database_context = None, schema_context = None,
      request_metrics = \<lparr>queries_executed = 0, errors = 0, transaction_operations = 0,
                          transaction_commits = 0, transaction_rollbacks = 0\<rparr>\<rparr>"

text \<open>Python's truth value of an optional string: \<open>None\<close> and the empty string are
  false.\<close>

definition truthy :: "string option \<Rightarrow> bool" where
  "truthy v = (case v of None \<Rightarrow> False | Some s \<Rightarrow> s \<noteq> [])"

definition set_database_context :: "RequestContext \<Rightarrow> string \<Rightarrow> string option \<Rightarrow> RequestContext" where
  "set_database_context ctx database schema =
     (let ctx1 = ctx\<lparr>database_context := Some database\<rparr>
      in if truthy schema then ctx1\<lparr>schema_context := schema\<rparr> else ctx1)"

definition increment_query_count :: "RequestContext \<Rightarrow> RequestContext" where
  "increment_query_count ctx =
     ctx\<lparr>request_metrics := (request_metrics ctx)
           \<lparr>queries_executed := queries_executed (request_metrics ctx) + 1\<rparr>\<rparr>"

definition add_error :: "RequestContext \<Rightarrow> RequestContext" where
  "add_error ctx =
     ctx\<lparr>request_metrics := (request_metrics ctx)\<lparr>errors := errors (request_metrics ctx) + 1\<rparr>\<rparr>"

definition increment_transaction_operation :: "RequestContext \<Rightarrow> RequestContext" where
  "increment_transaction_operation ctx =
     ctx\<lparr>request_metrics := (request_metrics ctx)
           \<lparr>transaction_operations := transaction_operations (request_metrics ctx) + 1\<rparr>\<rparr>"

definition increment_transaction_commit :: "RequestContext \<Rightarrow> RequestContext" where
  "increment_transaction_commit ctx =
     ctx\<lparr>request_metrics := (request_metrics ctx)
           \<lparr>transaction_commits := transaction_commits (request_metrics ctx) + 1\<rparr>\<rparr>"

definition increment_transaction_rollback :: "RequestContext \<Rightarrow> RequestContext" where
  "increment_transaction_rollback ctx =
     ctx\<lparr>request_metrics := (request_metrics ctx)
           \<lparr>transaction_rollbacks := transaction_rollbacks (request_metrics ctx) + 1\<rparr>\<rparr>"

subsection \<open>The plain and the isolated wrapper\<close>

definition use_database :: "(string \<Rightarrow> string option) \<Rightarrow> Session \<Rightarrow> string \<Rightarrow> bool \<Rightarrow> db_error + Session" where
  "use_database default_schema s database ok =
     (if ok then Inr (s\<lparr>current_database := Some database,
                         current_schema := default_schema database\<rparr>)
      else Inl DatabaseError)"

definition use_schema :: "Session \<Rightarrow> string \<Rightarrow> bool \<Rightarrow> db_error + Session" where
  "use_schema s schema ok =
     (if ok then Inr (s\<lparr>current_schema := Some schema\<rparr>) else Inl DatabaseError)"

text \<open>\<open>get_current_context\<close>: \<open>result[0] or "Unknown", result[1] or "Unknown"\<close>.\<close>

definition or_unknown :: "string option \<Rightarrow> string" where
  "or_unknown v = (case v of None \<Rightarrow> ''Unknown'' | Some s \<Rightarrow> if s = [] then ''Unknown'' else s)"

definition get_current_context :: "Session \<Rightarrow> bool \<Rightarrow> db_error + string \<times> string" where
  "get_current_context s ok =
     (if ok then Inr (or_unknown (current_database s), or_unknown (current_schema s))
      else Inl DatabaseError)"

record IsolatedDatabaseOperations =
  session :: Session
  request_context :: RequestContext
  original_database :: "string option"
  original_schema :: "string option"
  context_changed :: bool

definition IsolatedDatabaseOperations_init :: "Session \<Rightarrow> RequestContext \<Rightarrow> IsolatedDatabaseOperations" where
  "IsolatedDatabaseOperations_init s ctx =
     \<lparr>session = s, request_context = ctx, original_database = None,
      original_schema = None, context_changed = False\<rparr>"

text \<open>\<open>__aenter__\<close>: a failure to read the context is logged and the scope goes on.\<close>

definition aenter :: "'a IsolatedDatabaseOperations_scheme \<Rightarrow> bool \<Rightarrow> 'a IsolatedDatabaseOperations_scheme" where
  "aenter ops ok =
     (case get_current_context (session ops) ok of
        Inr (current_db, current_sch) \<Rightarrow>
          ops\<lparr>original_database := Some current_db, original_schema := Some current_sch\<rparr>
      | Inl e \<Rightarrow> ops)"

definition use_database_isolated ::
  "(string \<Rightarrow> string option) \<Rightarrow> 'a IsolatedDatabaseOperations_scheme \<Rightarrow> string \<Rightarrow> bool
   \<Rightarrow> (db_error + unit) \<times> 'a IsolatedDatabaseOperations_scheme" where
  "use_database_isolated default_schema ops database ok =
     (case use_database default_schema (session ops) database ok of
        Inl e \<Rightarrow> (Inl e, ops)
      | Inr s \<Rightarrow>
          (Inr (), ops\<lparr>session := s,
                       request_context := set_database_context (request_context ops) database None,
                       context_changed := True\<rparr>))"

definition use_schema_isolated ::
  "'a IsolatedDatabaseOperations_scheme \<Rightarrow> string \<Rightarrow> bool
   \<Rightarrow> (db_error + unit) \<times> 'a IsolatedDatabaseOperations_scheme" where
  "use_schema_isolated ops schema ok =
     (case use_schema (session ops) schema ok of
        Inl e \<Rightarrow> (Inl e, ops)
      | Inr s \<Rightarrow>
          (Inr (), ops\<lparr>session := s,
                       request_context :=
                         (case database_context (request_context ops) of
                            None \<Rightarrow> request_context ops
                          | Some db \<Rightarrow>
                              if db = [] then request_context ops
                              else set_database_context (request_context ops) db (Some schema)),
                       context_changed := True\<rparr>))"

text \<open>\<open>_restore_original_context\<close>: an exception of either statement leaves the rest
  undone.\<close>

definition restore_original_context ::
  "(string \<Rightarrow> string option) \<Rightarrow> 'a IsolatedDatabaseOperations_scheme \<Rightarrow> bool \<Rightarrow> bool
   \<Rightarrow> (db_error + unit) \<times> 'a IsolatedDatabaseOperations_scheme" where
  "restore_original_context default_schema ops db_ok schema_ok =
     (case original_database ops of
        None \<Rightarrow> (Inr (), ops)
      | Some odb \<Rightarrow>
          (if odb \<noteq> [] \<and> odb \<noteq> ''Unknown'' then
             (case use_database default_schema (session ops) odb db_ok of
                Inl e \<Rightarrow> (Inl e, ops)
              | Inr s1 \<Rightarrow>
                  (case original_schema ops of
                     None \<Rightarrow> (Inr (), ops\<lparr>session := s1\<rparr>)
                   | Some osch \<Rightarrow>
                       (if osch \<noteq> [] \<and> osch \<noteq> ''Unknown'' then
                          (case use_schema s1 osch schema_ok of
                             Inl e \<Rightarrow> (Inl e, ops\<lparr>session := s1\<rparr>)
                           | Inr s2 \<Rightarrow> (Inr (), ops\<lparr>session := s2\<rparr>))
                        else (Inr (), ops\<lparr>session := s1\<rparr>))))
           else (Inr (), ops)))"

text \<open>\<open>__aexit__\<close>: an exception of the restore is logged and swallowed.\<close>

definition aexit ::
  "(string \<Rightarrow> string option) \<Rightarrow> 'a IsolatedDatabaseOperations_scheme \<Rightarrow> bool \<Rightarrow> bool
   \<Rightarrow> 'a IsolatedDatabaseOperations_scheme" where
  "aexit default_schema ops db_ok schema_ok =
     (if context_changed ops \<and> truthy (original_database ops)
      then snd (restore_original_context default_schema ops db_ok schema_ok)
      else ops)"

text \<open>
  The calls of the claim that a handler makes inside the scope, each with the driver's
  answer. The body of the scope runs them in order; the first exception leaves the scope
  (a handler that catches it and goes on is the run of a longer list from the same
  state, since a call that raises changes nothing).
\<close>

datatype isolated_call = UseDatabase string bool | UseSchema string bool

fun isolated_body ::
  "(string \<Rightarrow> string option) \<Rightarrow> 'a IsolatedDatabaseOperations_scheme \<Rightarrow> isolated_call list
   \<Rightarrow> (db_error + unit) \<times> 'a IsolatedDatabaseOperations_scheme" where
  "isolated_body default_schema ops [] = (Inr (), ops)"
| "isolated_body default_schema ops (UseDatabase d ok # calls) =
     (case use_database_isolated default_schema ops d ok of
        (Inl e, ops') \<Rightarrow> (Inl e, ops')
      | (Inr x, ops') \<Rightarrow> isolated_body default_schema ops' calls)"
| "isolated_body default_schema ops (UseSchema sch ok # calls) =
     (case use_schema_isolated ops sch ok of
        (Inl e, ops') \<Rightarrow> (Inl e, ops')
      | (Inr x, ops') \<Rightarrow> isolated_body default_schema ops' calls)"

text \<open>\<open>get_isolated_database_ops\<close> on an acquired connection: enter, body, exit; the
  result is whether the body raised, and the session as the wrapper releases it.\<close>

definition isolated_scope ::
  "(string \<Rightarrow> string option) \<Rightarrow> Session \<Rightarrow> RequestContext \<Rightarrow> bool \<Rightarrow> isolated_call list
   \<Rightarrow> bool \<Rightarrow> bool \<Rightarrow> (db_error + unit) \<times> Session" where
  "isolated_scope default_schema s ctx capture_ok calls db_ok schema_ok =
     (let ops0 = aenter (IsolatedDatabaseOperations_init s ctx) capture_ok;
          (r, ops1) = isolated_body default_schema ops0 calls;
          ops2 = aexit default_schema ops1 db_ok schema_ok
      in (r, session ops2))"

text \<open>A warehouse whose databases all have a schema \<open>PUBLIC\<close>.\<close>

definition public_schema :: "string \<Rightarrow> string option" where
  "public_schema d = Some ''PUBLIC''"

text \<open>
  The invariant of a scope that entered on session \<open>s\<close> at database \<open>d0\<close> and schema
  \<open>s0\<close>: both are recorded, and until a call marks the context changed the session is
  still \<open>s\<close>.
\<close>

definition captured :: "Session \<Rightarrow> string \<Rightarrow> string \<Rightarrow> 'a IsolatedDatabaseOperations_scheme \<Rightarrow> bool" where
  "captured s d0 s0 ops \<longleftrightarrow>
     original_database ops = Some d0 \<and> original_schema ops = Some s0
     \<and> autocommit (session ops) = autocommit s
     \<and> (context_changed ops \<or> session ops = s)"

text \<open>Sample sessions: one at database \<open>DB0\<close>, schema \<open>S0\<close>; one with no database
  selected.\<close>

definition session_a :: Session where
  "session_a = \<lparr>current_database = Some ''DB0'', current_schema = Some ''S0'', autocommit = True\<rparr>"

definition session_none :: Session where
  "session_none = \<lparr>current_database = None, current_schema = None, autocommit = True\<rparr>"

subsection \<open>The transaction manager and the transactional wrapper\<close>

record TransactionManager =
  in_transaction :: bool
  autocommit_original :: "bool option"

definition TransactionManager_init :: TransactionManager where
  "TransactionManager_init = \<lparr>in_transaction = False, autocommit_original = None\<rparr>"

text \<open>\<open>begin_transaction\<close>: \<open>ok\<close> is whether the driver executes \<open>BEGIN\<close>.\<close>

definition begin_transaction ::
  "TransactionManager \<Rightarrow> Session \<Rightarrow> bool \<Rightarrow> (db_error + unit) \<times> TransactionManager \<times> Session" where
  "begin_transaction tm s ok =
     (if in_transaction tm then (Inr (), tm, s)
      else
        (let tm1 = tm\<lparr>autocommit_original := Some (autocommit s)\<rparr>;
             s1 = s\<lparr>autocommit := False\<rparr>
         in if ok then (Inr (), tm1\<lparr>in_transaction := True\<rparr>, s1)
            else (Inl DatabaseError, tm1, s1)))"

definition cleanup_transaction :: "TransactionManager \<Rightarrow> Session \<Rightarrow> TransactionManager \<times> Session" where
  "cleanup_transaction tm s =
     (tm\<lparr>in_transaction := False, autocommit_original := None\<rparr>,
      (case autocommit_original tm of None \<Rightarrow> s | Some a \<Rightarrow> s\<lparr>autocommit := a\<rparr>))"

text \<open>\<open>TransactionManager.commit_transaction\<close> and \<open>rollback_transaction\<close>: nothing
  happens outside a transaction; \<open>ok\<close> is whether the driver executes \<open>COMMIT\<close> or
  \<open>ROLLBACK\<close>, and the cleanup runs either way.\<close>

definition tm_commit_transaction ::
  "TransactionManager \<Rightarrow> Session \<Rightarrow> bool \<Rightarrow> (db_error + unit) \<times> TransactionManager \<times> Session" where
  "tm_commit_transaction tm s ok =
     (if \<not> in_transaction tm then (Inr (), tm, s)
      else (if ok then Inr () else Inl DatabaseError, cleanup_transaction tm s))"

definition tm_rollback_transaction ::
  "TransactionManager \<Rightarrow> Session \<Rightarrow> bool \<Rightarrow> (db_error + unit) \<times> TransactionManager \<times> Session" where
  "tm_rollback_transaction tm s ok =
     (if \<not> in_transaction tm then (Inr (), tm, s)
      else (if ok then Inr () else Inl DatabaseError, cleanup_transaction tm s))"

record TransactionalDatabaseOperations = IsolatedDatabaseOperations +
  transaction_manager :: "TransactionManager option"

definition TransactionalDatabaseOperations_init ::
  "Session \<Rightarrow> RequestContext \<Rightarrow> TransactionalDatabaseOperations" where
  "TransactionalDatabaseOperations_init s ctx =
     \<lparr>session = s, request_context = ctx, original_database = None,
      original_schema = None, context_changed = False, transaction_manager = None\<rparr>"

text \<open>The transactional \<open>__aenter__\<close>: the isolated one, then a fresh transaction
  manager.\<close>

definition transactional_aenter ::
  "TransactionalDatabaseOperations \<Rightarrow> bool \<Rightarrow> TransactionalDatabaseOperations" where
  "transactional_aenter ops ok = (aenter ops ok)\<lparr>transaction_manager := Some TransactionManager_init\<rparr>"

text \<open>\<open>execute_query_isolated\<close>: the query counter goes up, and an exception of the
  query is recorded on the request context and raised again.\<close>

definition execute_query_isolated ::
  "'a IsolatedDatabaseOperations_scheme \<Rightarrow> bool
   \<Rightarrow> (db_error + unit) \<times> 'a IsolatedDatabaseOperations_scheme" where
  "execute_query_isolated ops ok =
     (let ops1 = ops\<lparr>request_context := increment_query_count (request_context ops)\<rparr>
      in if ok then (Inr (), ops1)
         else (Inl DatabaseError, ops1\<lparr>request_context := add_error (request_context ops1)\<rparr>))"

text \<open>
  \<open>execute_with_transaction\<close>, with \<open>transaction_scope\<close> inlined; the scope has a
  transaction manager of its own. The flags say whether the driver executes \<open>BEGIN\<close>,
  the query, \<open>COMMIT\<close> and \<open>ROLLBACK\<close>. Without auto-commit: the commit counter goes up
  after the query, before the scope's exit commits; an exception of \<open>BEGIN\<close>, of the
  query, of \<open>COMMIT\<close> or of \<open>ROLLBACK\<close> reaches the handler of
  \<open>execute_with_transaction\<close>, which counts a rollback.
\<close>

definition execute_with_transaction ::
  "TransactionalDatabaseOperations \<Rightarrow> bool \<Rightarrow> bool \<Rightarrow> bool \<Rightarrow> bool \<Rightarrow> bool
   \<Rightarrow> (db_error + unit) \<times> TransactionalDatabaseOperations" where
  "execute_with_transaction ops auto_commit begin_ok query_ok commit_ok rollback_ok =
     (let ops1 = ops\<lparr>request_context := increment_transaction_operation (request_context ops)\<rparr>
      in if auto_commit then execute_query_isolated ops1 query_ok
         else
           (let counted_rollback = (\<lambda>w. w\<lparr>request_context :=
                                            increment_transaction_rollback (request_context w)\<rparr>)
            in case begin_transaction TransactionManager_init (session ops1) begin_ok of
                 (Inl e, tm1, s1) \<Rightarrow> (Inl e, counted_rollback (ops1\<lparr>session := s1\<rparr>))
               | (Inr x, tm1, s1) \<Rightarrow>
                   (case execute_query_isolated (ops1\<lparr>session := s1\<rparr>) query_ok of
                      (Inl e, ops2) \<Rightarrow>
                        (let (r, tm2, s2) = tm_rollback_transaction tm1 (session ops2) rollback_ok
                         in (Inl DatabaseError, counted_rollback (ops2\<lparr>session := s2\<rparr>)))
                    | (Inr y, ops2) \<Rightarrow>
                        (let ops3 = (if in_transaction tm1
                                     then ops2\<lparr>request_context :=
                                            increment_transaction_commit (request_context ops2)\<rparr>
                                     else ops2)
                         in case tm_commit_transaction tm1 (session ops3) commit_ok of
                              (Inr z, tm2, s2) \<Rightarrow> (Inr (), ops3\<lparr>session := s2\<rparr>)
                            | (Inl e, tm2, s2) \<Rightarrow>
                                (let (r, tm3, s3) = tm_rollback_transaction tm2 s2 rollback_ok
                                 in (Inl DatabaseError, counted_rollback (ops3\<lparr>session := s3\<rparr>)))))))"

definition begin_explicit_transaction ::
  "TransactionalDatabaseOperations \<Rightarrow> bool \<Rightarrow> (db_error + unit) \<times> TransactionalDatabaseOperations" where
  "begin_explicit_transaction ops ok =
     (case transaction_manager ops of
        None \<Rightarrow> (Inr (), ops)
      | Some tm \<Rightarrow>
          (let ops1 = ops\<lparr>request_context := increment_transaction_operation (request_context ops)\<rparr>;
               (r, tm1, s1) = begin_transaction tm (session ops1) ok
           in (r, ops1\<lparr>session := s1, transaction_manager := Some tm1\<rparr>)))"

definition commit_transaction ::
  "TransactionalDatabaseOperations \<Rightarrow> bool \<Rightarrow> (db_error + unit) \<times> TransactionalDatabaseOperations" where
  "commit_transaction ops ok =
     (case transaction_manager ops of
        None \<Rightarrow> (Inr (), ops)
      | Some tm \<Rightarrow>
          (let (r, tm1, s1) = tm_commit_transaction tm (session ops) ok;
               ops1 = ops\<lparr>session := s1, transaction_manager := Some tm1\<rparr>
           in case r of
                Inl e \<Rightarrow> (Inl e, ops1)
              | Inr x \<Rightarrow> (Inr (), ops1\<lparr>request_context :=
                                         increment_transaction_commit (request_context ops1)\<rparr>)))"

definition rollback_transaction ::
  "TransactionalDatabaseOperations \<Rightarrow> bool \<Rightarrow> (db_error + unit) \<times> TransactionalDatabaseOperations" where
  "rollback_transaction ops ok =
     (case transaction_manager ops of
        None \<Rightarrow> (Inr (), ops)
      | Some tm \<Rightarrow>
          (let (r, tm1, s1) = tm_rollback_transaction tm (session ops) ok;
               ops1 = ops\<lparr>session := s1, transaction_manager := Some tm1\<rparr>
           in case r of
                Inl e \<Rightarrow> (Inl e, ops1)
              | Inr x \<Rightarrow> (Inr (), ops1\<lparr>request_context :=
                                         increment_transaction_rollback (request_context ops1)\<rparr>)))"

text \<open>The calls a handler can make on the transactional wrapper, each with the driver's
  answers, and a run of them inside the scope (the handler going on after an
  exception).\<close>

datatype transactional_call =
    ExecuteWithTransaction bool bool bool bool bool
  | BeginExplicitTransaction bool
  | CommitTransaction bool
  | RollbackTransaction bool

fun transactional_step ::
  "TransactionalDatabaseOperations \<Rightarrow> transactional_call \<Rightarrow> TransactionalDatabaseOperations" where
  "transactional_step ops (ExecuteWithTransaction auto_commit b q c r) =
     snd (execute_with_transaction ops auto_commit b q c r)"
| "transactional_step ops (BeginExplicitTransaction ok) = snd (begin_explicit_transaction ops ok)"
| "transactional_step ops (CommitTransaction ok) = snd (commit_transaction ops ok)"
| "transactional_step ops (RollbackTransaction ok) = snd (rollback_transaction ops ok)"

definition transactional_run :: "Session \<Rightarrow> transactional_call list \<Rightarrow> RequestMetrics" where
  "transactional_run s calls =
     request_metrics (request_context
       (foldl transactional_step
          (transactional_aenter (TransactionalDatabaseOperations_init s RequestContext_init) True)
          calls))"

section \<open>Connection pool (utils/async\_pool.py)\<close>

text \<open>
  A pooled connection with the flags \<open>acquire\<close> reads and writes; \<open>handle\<close> stands for
  the driver's connection object. The pool's \<open>_connections\<close> is a Python set: it is
  modelled by the list of its members in the order the \<open>for\<close> loop visits them.
\<close>

record PooledConnection =
  handle :: nat
  in_use :: bool
  is_healthy :: bool
  last_used :: real

record ConnectionPoolConfig =
  min_size :: int
  max_size :: int
  connection_timeout :: real
  retry_attempts :: int

record AsyncConnectionPool =
  pool_config :: ConnectionPoolConfig
  connections :: "PooledConnection list"
  closed :: bool

definition PooledConnection_init :: "nat \<Rightarrow> real \<Rightarrow> PooledConnection" where
  "PooledConnection_init h now = \<lparr>handle = h, in_use = False, is_healthy = True, last_used = now\<rparr>"

text \<open>The scan \<open>for conn in self._connections: if not conn.in_use and conn.is_healthy:
  return conn\<close>.\<close>

definition first_available :: "PooledConnection list \<Rightarrow> PooledConnection option" where
  "first_available conns = find (\<lambda>conn. \<not> in_use conn \<and> is_healthy conn) conns"

text \<open>
  What \<open>acquire\<close> and \<open>_get_connection\<close> can come to: a connection, the
  \<open>RuntimeError\<close> of a closed pool, the exception of the driver that could not open a
  new connection, or a call that is still in its \<open>while True\<close> loop when the model's
  fuel (the number of polls looked at) is used up. The code raises nothing else.
\<close>

datatype acquire_result =
    Acquired PooledConnection
  | RuntimeError
  | ConnectionFailed
  | StillWaiting

text \<open>
  The loop \<open>while True: await asyncio.sleep(0.1); for conn in self._connections: ...\<close>.
  The waiting task holds the pool lock, so no connection is added or removed meanwhile;
  the flags change when other tasks release their connections: \<open>seen k\<close> is the pool's
  list as the scan after the \<open>k\<close>-th sleep finds it.
\<close>

fun wait_for_connection :: "nat \<Rightarrow> (nat \<Rightarrow> PooledConnection list) \<Rightarrow> nat \<Rightarrow> acquire_result" where
  "wait_for_connection 0 seen k = StillWaiting"
| "wait_for_connection (Suc fuel) seen k =
     (case first_available (seen k) of
        Some conn \<Rightarrow> Acquired conn
      | None \<Rightarrow> wait_for_connection fuel seen (Suc k))"

text \<open>\<open>_get_connection\<close>: \<open>new_handle\<close> is what opening a connection gives, should the
  pool open one (\<open>None\<close>: the driver raises).\<close>

definition get_connection ::
  "AsyncConnectionPool \<Rightarrow> nat option \<Rightarrow> real \<Rightarrow> nat \<Rightarrow> (nat \<Rightarrow> PooledConnection list)
   \<Rightarrow> acquire_result \<times> AsyncConnectionPool" where
  "get_connection pool new_handle now fuel seen =
     (case first_available (connections pool) of
        Some conn \<Rightarrow> (Acquired conn, pool)
      | None \<Rightarrow>
          (if int (length (connections pool)) < max_size (pool_config pool) then
             (case new_handle of
                None \<Rightarrow> (ConnectionFailed, pool)
              | Some h \<Rightarrow>
                  (Acquired (PooledConnection_init h now),
                   pool\<lparr>connections := connections pool @ [PooledConnection_init h now]\<rparr>))
           else (wait_for_connection fuel seen 0, pool)))"

text \<open>\<open>acquire\<close> up to the connection it hands to its caller; the caller's scope is
  then bracketed by \<open>mark_in_use\<close> and \<open>mark_available\<close>.\<close>

definition mark_in_use :: "PooledConnection \<Rightarrow> real \<Rightarrow> PooledConnection" where
  "mark_in_use conn now = conn\<lparr>in_use := True, last_used := now\<rparr>"

definition mark_available :: "PooledConnection \<Rightarrow> real \<Rightarrow> PooledConnection" where
  "mark_available conn now = conn\<lparr>in_use := False, last_used := now\<rparr>"

definition acquire ::
  "AsyncConnectionPool \<Rightarrow> nat option \<Rightarrow> real \<Rightarrow> nat \<Rightarrow> (nat \<Rightarrow> PooledConnection list)
   \<Rightarrow> acquire_result \<times> AsyncConnectionPool" where
  "acquire pool new_handle now fuel seen =
     (if closed pool then (RuntimeError, pool)
      else get_connection pool new_handle now fuel seen)"

text \<open>A pool of one connection, which is in use and is never released.\<close>

definition busy_connection :: PooledConnection where
  "busy_connection = \<lparr>handle = 0, in_use = True, is_healthy = True, last_used = 0\<rparr>"

definition busy_pool :: AsyncConnectionPool where
  "busy_pool =
     \<lparr>pool_config = \<lparr>min_size = 1, max_size = 1, connection_timeout = 30, retry_attempts = 3\<rparr>,
      connections = [busy_connection], closed = False\<rparr>"

definition never_released :: "nat \<Rightarrow> PooledConnection list" where
  "never_released k = [busy_connection]"

definition released_at :: "nat \<Rightarrow> nat \<Rightarrow> PooledConnection list" where
  "released_at n k = (if k < n then [busy_connection] else [busy_connection\<lparr>in_use := False\<rparr>])"

section \<open>SQL validator (security/sql\_injection.py)\<close>

text \<open>
  The validator calls three libraries on the query text: the regular-expression engine,
  the SQL tokenizer and the SQL parser. Their answers for a query are inputs of the
  model (record \<open>analysis\<close>): which of the repository's patterns match, the token list
  (or that the tokenizer raised), what the structure validator reports, and which string
  literals \<open>_is_suspicious_string\<close> flags. What the validator does with these answers
  is the code below. A violation, a message string in the source, is a value of
  \<open>violation\<close> here.
\<close>

datatype SQLInjectionRisk = NONE | LOW | MEDIUM | HIGH | CRITICAL

fun risk_index :: "SQLInjectionRisk \<Rightarrow> nat" where
  "risk_index NONE = 0"
| "risk_index LOW = 1"
| "risk_index MEDIUM = 2"
| "risk_index HIGH = 3"
| "risk_index CRITICAL = 4"

text \<open>\<open>max(a, b, key=lambda x: list(SQLInjectionRisk).index(x))\<close>: the first of the
  largest.\<close>

definition risk_max :: "SQLInjectionRisk \<Rightarrow> SQLInjectionRisk \<Rightarrow> SQLInjectionRisk" where
  "risk_max a b = (if risk_index a < risk_index b then b else a)"

text \<open>The token types the source names (\<open>ALL_token\<close> is \<open>TokenType.ALL\<close>); \<open>OTHER\<close> is
  any other type.\<close>

datatype TokenType =
    SELECT | INSERT | UPDATE | DELETE | CREATE | DROP | ALTER | TRUNCATE | GRANT | REVOKE
  | EXECUTE | CALL | UNION | ALL_token | AND | OR | NUMBER | EQ | COMMENT | BLOCK_COMMENT
  | STRING | OTHER

datatype QueryType =
    SELECT_query | INSERT_query | UPDATE_query | DELETE_query | CREATE_query | DROP_query
  | ALTER_query | TRUNCATE_query | GRANT_query | REVOKE_query | EXECUTE_query | CALL_query
  | UNKNOWN_query

record Token =
  token_type :: TokenType
  token_text :: string

datatype violation =
    EmptyQuery
  | QueryTooLong nat
  | CriticalPattern string
  | HighRiskPattern string
  | MediumRiskPattern string
  | LowRiskPattern string
  | ForbiddenOperation TokenType
  | SuspiciousSequence "TokenType list"
  | ExcessiveComments nat
  | SuspiciousString string
  | TokenAnalysisFailed
  | StructureViolation string

record analysis =
  critical_matches :: "string list"
  high_matches :: "string list"
  medium_matches :: "string list"
  low_matches :: "string list"
  tokens_of :: "Token list option"
  suspicious_string :: "string \<Rightarrow> bool"
  structure_violations :: "violation list"

text \<open>\<open>SQLPatternMatcher.analyze_query\<close>: a family of patterns is tried only when no
  family of higher risk has matched (low only when nothing has).\<close>

definition analyze_query :: "analysis \<Rightarrow> SQLInjectionRisk \<times> violation list" where
  "analyze_query an =
     (let v1 = map CriticalPattern (critical_matches an);
          r1 = (if critical_matches an \<noteq> [] then CRITICAL else NONE);
          v2 = (if r1 \<noteq> CRITICAL then map HighRiskPattern (high_matches an) else []);
          r2 = (if r1 \<noteq> CRITICAL \<and> high_matches an \<noteq> [] then HIGH else r1);
          v3 = (if r2 \<noteq> CRITICAL \<and> r2 \<noteq> HIGH
                then map MediumRiskPattern (medium_matches an) else []);
          r3 = (if r2 \<noteq> CRITICAL \<and> r2 \<noteq> HIGH \<and> medium_matches an \<noteq> [] then MEDIUM else r2);
          v4 = (if r3 = NONE then map LowRiskPattern (low_matches an) else []);
          r4 = (if r3 = NONE \<and> low_matches an \<noteq> [] then LOW else r3)
      in (r4, v1 @ v2 @ v3 @ v4))"

definition statement_types :: "TokenType list" where
  "statement_types =
     [SELECT, INSERT, UPDATE, DELETE, CREATE, DROP, ALTER, TRUNCATE, GRANT, REVOKE, EXECUTE, CALL]"

text \<open>\<open>QueryType(token.token_type.name.lower())\<close> for a token of a statement type.\<close>

fun query_type_of :: "TokenType \<Rightarrow> QueryType" where
  "query_type_of SELECT = SELECT_query"
| "query_type_of INSERT = INSERT_query"
| "query_type_of UPDATE = UPDATE_query"
| "query_type_of DELETE = DELETE_query"
| "query_type_of CREATE = CREATE_query"
| "query_type_of DROP = DROP_query"
| "query_type_of ALTER = ALTER_query"
| "query_type_of TRUNCATE = TRUNCATE_query"
| "query_type_of GRANT = GRANT_query"
| "query_type_of REVOKE = REVOKE_query"
| "query_type_of EXECUTE = EXECUTE_query"
| "query_type_of CALL = CALL_query"
| "query_type_of t = UNKNOWN_query"

definition forbidden_tokens_readonly :: "TokenType list" where
  "forbidden_tokens_readonly =
     [INSERT, UPDATE, DELETE, DROP, CREATE, ALTER, TRUNCATE, GRANT, REVOKE, EXECUTE]"

definition suspicious_token_sequences :: "TokenType list list" where
  "suspicious_token_sequences =
     [[UNION, SELECT], [UNION, ALL_token, SELECT], [AND, NUMBER, EQ, NUMBER],
      [OR, NUMBER, EQ, NUMBER], [COMMENT], [BLOCK_COMMENT]]"

definition matches_sequence :: "Token list \<Rightarrow> TokenType list \<Rightarrow> bool" where
  "matches_sequence ts pattern =
     (length pattern \<le> length ts \<and> map token_type (take (length pattern) ts) = pattern)"

text \<open>The first meaningful token: the first token of a statement type.\<close>

definition first_statement_token :: "Token list \<Rightarrow> Token option" where
  "first_statement_token ts = find (\<lambda>t. token_type t \<in> set statement_types) ts"

text \<open>\<open>SQLTokenAnalyzer.analyze_tokens\<close>; an exception of the tokenizer is caught and
  becomes a violation.\<close>

definition analyze_tokens :: "analysis \<Rightarrow> bool \<Rightarrow> violation list \<times> QueryType" where
  "analyze_tokens an readonly =
     (case tokens_of an of
        None \<Rightarrow> ([TokenAnalysisFailed], UNKNOWN_query)
      | Some ts \<Rightarrow>
          (if ts = [] then ([EmptyQuery], UNKNOWN_query)
           else
             (let qt = (case first_statement_token ts of
                          None \<Rightarrow> UNKNOWN_query
                        | Some t \<Rightarrow> query_type_of (token_type t));
                  v1 = (if readonly
                        then map (\<lambda>t. ForbiddenOperation (token_type t))
                               (filter (\<lambda>t. token_type t \<in> set forbidden_tokens_readonly) ts)
                        else []);
                  v2 = concat (map (\<lambda>i. map SuspiciousSequence
                                         (filter (matches_sequence (drop i ts))
                                            suspicious_token_sequences))
                                 [0 ..< length ts - 1]);
                  comment_count =
                    length (filter (\<lambda>t. token_type t = COMMENT \<or> token_type t = BLOCK_COMMENT) ts);
                  v3 = (if comment_count > 3 then [ExcessiveComments comment_count] else []);
                  v4 = map (\<lambda>t. SuspiciousString (take 50 (token_text t)))
                         (filter (\<lambda>t. suspicious_string an (token_text t))
                            (filter (\<lambda>t. token_type t = STRING) ts))
              in (v1 @ v2 @ v3 @ v4, qt))))"

record SQLValidator =
  max_query_length :: int
  readonly_mode :: bool
  strict_validation :: bool

definition blocked_risk_levels :: "SQLValidator \<Rightarrow> SQLInjectionRisk set" where
  "blocked_risk_levels v = (if strict_validation v then {CRITICAL, HIGH, MEDIUM} else {CRITICAL, HIGH})"

record SQLValidationResult =
  is_valid :: bool
  risk_level :: SQLInjectionRisk
  query_type :: QueryType
  violations :: "violation list"

text \<open>\<open>str.isspace\<close> on the characters of the query (tab to carriage return, the four
  separators, the space, next-line and no-break space), for
  \<open>not query or not query.strip()\<close>.\<close>

definition py_isspace :: "char \<Rightarrow> bool" where
  "py_isspace c = (of_char c \<in> {9, 10, 11, 12, 13, 28, 29, 30, 31, 32, 133, 160 :: nat})"

definition is_blank :: "string \<Rightarrow> bool" where
  "is_blank q = list_all py_isspace q"

text \<open>\<open>SQLValidator.validate_query\<close>, the path on which nothing raises (the query is a
  string and the analyzers catch their own exceptions).\<close>

definition validate_query :: "SQLValidator \<Rightarrow> string \<Rightarrow> analysis \<Rightarrow> SQLValidationResult" where
  "validate_query v query an =
     (let blocked = blocked_risk_levels v;
          (vs1, risk1) = (if is_blank query then ([EmptyQuery], HIGH) else ([], NONE));
          (vs2, risk2) = (if int (length query) > max_query_length v
                          then (vs1 @ [QueryTooLong (length query)], MEDIUM)
                          else (vs1, risk1));
          (vs3, risk3) = (if vs2 = []
                          then (let (pattern_risk, pattern_violations) = analyze_query an
                                in (vs2 @ pattern_violations, risk_max risk2 pattern_risk))
                          else (vs2, risk2));
          (vs4, risk4, qt) =
             (if vs3 = [] \<or> risk3 \<notin> blocked
              then (let (token_violations, qt) = analyze_tokens an (readonly_mode v)
                    in (vs3 @ token_violations,
                        if token_violations \<noteq> [] then risk_max risk3 MEDIUM else risk3, qt))
              else (vs3, risk3, UNKNOWN_query));
          (vs5, risk5) =
             (if vs4 = [] \<or> risk4 \<notin> blocked
              then (vs4 @ structure_violations an,
                    if structure_violations an \<noteq> [] then risk_max risk4 MEDIUM else risk4)
              else (vs4, risk4))
      in \<lparr>is_valid = (risk5 \<notin> blocked), risk_level = risk5, query_type = qt,
          violations = vs5\<rparr>)"

text \<open>A query whose first meaningful token is a write verb.\<close>

definition starts_with_write_verb :: "Token list \<Rightarrow> bool" where
  "starts_with_write_verb ts =
     (case first_statement_token ts of
        None \<Rightarrow> False
      | Some t \<Rightarrow> token_type t \<in> set forbidden_tokens_readonly)"



section \<open>Theorems: backoff schedule\<close>

lemma Backoff_next_config: "config (snd (Backoff_next b now rnd)) = config b"
  by (auto simp: Backoff_next_def split: sum.splits)

lemma next_calls_bound:
  "int (attempt_count b) + int (length (next_calls b calls))
     \<le> max (int (attempt_count b)) (max_attempts (config b))"
proof (induction calls arbitrary: b)
  case Nil
  then show ?case by simp
next
  case (Cons c calls)
  obtain now rnd where c: "c = (now, rnd)" by (cases c)
  obtain r b' where nx: "Backoff_next b now rnd = (r, b')"
    by (cases "Backoff_next b now rnd")
  have cfg: "config b' = config b" using Backoff_next_config[of b now rnd] nx by simp
  show ?case
  proof (cases r)
    case (Value d)
    with nx have lt: "int (attempt_count b) < max_attempts (config b)"
      and ac: "attempt_count b' = attempt_count b + 1"
      by (auto simp: Backoff_next_def split: if_splits sum.splits)
    from Cons.IH[of b'] cfg ac lt show ?thesis using c nx Value by simp
  next
    case StopIteration
    with nx have "b' = b" by (auto simp: Backoff_next_def split: if_splits sum.splits)
    with Cons.IH[of b] show ?thesis using c nx StopIteration by simp
  next
    case (Raised e)
    with nx have "b' = b" by (auto simp: Backoff_next_def split: if_splits sum.splits)
    with Cons.IH[of b] show ?thesis using c nx Raised by simp
  qed
qed

lemma wait_loop_elapsed:
  assumes "total_timeout (config b) = Some T" "T \<noteq> 0"
  shows "\<forall>p \<in> set rounds. 0 \<le> fst p \<Longrightarrow> wait_loop b t rounds \<noteq> [] \<Longrightarrow>
     sum_list (butlast (wait_loop b t rounds)) + (t - start_time b) < T"
  using assms
proof (induction rounds arbitrary: b t)
  case Nil
  then show ?case by simp
next
  case (Cons c rounds)
  obtain lag rnd where c: "c = (lag, rnd)" by (cases c)
  obtain r b' where nx: "Backoff_next b (t + lag) rnd = (r, b')"
    by (cases "Backoff_next b (t + lag) rnd")
  from Cons.prems c nx obtain d where r: "r = Value d" by (cases r) auto
  have lag: "0 \<le> lag" using Cons.prems c by simp
  from nx r have nt: "\<not> timeout_reached b (t + lag)"
    and b': "b' = b\<lparr>attempt_count := attempt_count b + 1\<rparr>"
    by (auto simp: Backoff_next_def split: if_splits sum.splits)
  from nt Cons.prems have el: "t + lag - start_time b < T"
    by (simp add: timeout_reached_def)
  have wl: "wait_loop b t (c # rounds) = d # wait_loop b' (t + lag + d) rounds"
    using c nx r by simp
  show ?case
  proof (cases "wait_loop b' (t + lag + d) rounds = []")
    case True
    then show ?thesis using wl el lag by simp
  next
    case False
    have "sum_list (butlast (wait_loop b' (t + lag + d) rounds))
            + (t + lag + d - start_time b') < T"
      using Cons.IH[of b' "t + lag + d"] Cons.prems False b' by simp
    then show ?thesis using wl False lag b' by simp
  qed
qed

text \<open>
  Claim C9, as the code has it. From a fresh iteration (\<open>__iter__\<close> at clock \<open>t0\<close>),
  any sequence of \<open>next\<close> calls produces at most \<open>max_attempts\<close> values. The
  \<open>total_timeout\<close> is a deadline on the elapsed clock, tested before a value is
  computed, and not a budget for the values: when the caller sleeps every delay before it
  asks for the next one, the values produced before the last one sum to less than
  \<open>total_timeout\<close>; the last value is not bounded by it.
\<close>

theorem backoff_attempts_and_deadline:
  "int (length (next_calls (Backoff_iter b t0) calls)) \<le> max 0 (max_attempts (config b))
   \<and> (total_timeout (config b) = Some T \<and> T \<noteq> 0
        \<and> (\<forall>p \<in> set rounds. 0 \<le> fst p)
        \<and> wait_loop (Backoff_iter b t0) t0 rounds \<noteq> []
      \<longrightarrow> sum_list (butlast (wait_loop (Backoff_iter b t0) t0 rounds)) < T)"
proof (intro conjI impI)
  show "int (length (next_calls (Backoff_iter b t0) calls)) \<le> max 0 (max_attempts (config b))"
    using next_calls_bound[of "Backoff_iter b t0" calls] by (simp add: Backoff_iter_def)
next
  assume h: "total_timeout (config b) = Some T \<and> T \<noteq> 0
        \<and> (\<forall>p \<in> set rounds. 0 \<le> fst p)
        \<and> wait_loop (Backoff_iter b t0) t0 rounds \<noteq> []"
  then show "sum_list (butlast (wait_loop (Backoff_iter b t0) t0 rounds)) < T"
    using wait_loop_elapsed[of "Backoff_iter b t0" T rounds t0]
    by (simp add: Backoff_iter_def)
qed

text \<open>
  A run of the theorem: a fixed delay of 5 seconds, at most 10 attempts and a deadline of
  12 seconds. The loop produces three values; the first two sum to 10.
\<close>

theorem backoff_attempts_and_deadline_witness:
  "int (length (next_calls
          (Backoff_iter (Backoff_init ((fixed_backoff 5 10)\<lparr>total_timeout := Some 12\<rparr>) 0) 0)
          [(0, no_draw), (1, no_draw)])) \<le> 10
   \<and> wait_loop (Backoff_iter (Backoff_init ((fixed_backoff 5 10)\<lparr>total_timeout := Some 12\<rparr>) 0) 0)
        0 [(0, no_draw), (0, no_draw), (0, no_draw), (0, no_draw)] = [5, 5, 5]
   \<and> sum_list (butlast (wait_loop
          (Backoff_iter (Backoff_init ((fixed_backoff 5 10)\<lparr>total_timeout := Some 12\<rparr>) 0) 0)
          0 [(0, no_draw), (0, no_draw), (0, no_draw), (0, no_draw)])) < 12"
  using backoff_attempts_and_deadline
    [of "Backoff_init ((fixed_backoff 5 10)\<lparr>total_timeout := Some 12\<rparr>) 0" 0
        "[(0, no_draw), (1, no_draw)]" 12
        "[(0, no_draw), (0, no_draw), (0, no_draw), (0, no_draw)]"]
  by (simp add: Backoff_init_def Backoff_iter_def fixed_backoff_def Backoff_next_def
      timeout_reached_def strategy_delay_def)

text \<open>
  Claim C9 as the specification words it (the sum of the values is at most
  \<open>total_timeout\<close>) fails: with a fixed delay of 5 seconds and a deadline of 1 second the
  first call, made before the deadline, returns 5.
\<close>

theorem backoff_sum_counterexample:
  "total_timeout ((fixed_backoff 5 10)\<lparr>total_timeout := Some 1\<rparr>) = Some 1
   \<and> next_calls (Backoff_iter (Backoff_init ((fixed_backoff 5 10)\<lparr>total_timeout := Some 1\<rparr>) 0) 0)
        [(0, no_draw), (5, no_draw)] = [5]
   \<and> \<not> sum_list (next_calls
          (Backoff_iter (Backoff_init ((fixed_backoff 5 10)\<lparr>total_timeout := Some 1\<rparr>) 0) 0)
          [(0, no_draw), (5, no_draw)]) \<le> 1"
  by (simp add: Backoff_init_def Backoff_iter_def fixed_backoff_def Backoff_next_def
      timeout_reached_def strategy_delay_def)

section \<open>Theorems: quotas\<close>

lemmas quota_eval = ClientQuota_init_def get_default_quotas_def small_settings_def
  QuotaLimit_new_def QuotaUsage_new_def getattr_def reset_quota_def reset_usage_def
  consume_quota_def check_reset_needed_def reset_needed_def available_quota_def
  grant_usage_def trim_usage_history_def dt_date_def dt_hour_def usec_per_day_def
  usec_per_hour_def get_next_reset_time_def day_client_def


lemma reset_usage_fields:
  "current_usage (reset_usage ql u force now) = 0"
  "peak_usage (reset_usage ql u force now) = 0"
  "burst_used (reset_usage ql u force now) = 0"
  "\<not> warning_triggered (reset_usage ql u force now)"
  "\<not> limit_exceeded (reset_usage ql u force now)"
  "last_reset (reset_usage ql u force now) = now"
  "rollover_balance (reset_usage ql u force now) =
     (if rollover_allowed ql \<and> \<not> force
      then min (max 0 (limit ql - current_usage u)) (limit ql div 2) else 0)"
  by (simp_all add: reset_usage_def)

lemma reset_quota_unlocked:
  "\<not> locked c \<Longrightarrow> quota_limits c qt = Some ql \<Longrightarrow> quota_usage c qt = Some u \<Longrightarrow>
   reset_quota c qt force now =
     (Returns (), c\<lparr>quota_usage := (quota_usage c)(qt \<mapsto> reset_usage ql u force now)\<rparr>)"
  by (simp add: reset_quota_def)


lemma consume_quota_reset_due:
  assumes "\<not> locked c" "quota_limits c qt = Some ql" "quota_usage c qt = Some u"
    and "reset_needed ql u now"
  shows "fst (consume_quota c qt amount now) = Deadlock"
  using assms by (simp add: consume_quota_def check_reset_needed_def reset_quota_def)

lemma no_reset_same_instant:
  "period ql \<noteq> CUSTOM_PERIOD \<Longrightarrow> \<not> reset_needed ql (reset_usage ql u force now) now"
  by (cases "period ql") (simp_all add: reset_needed_def reset_usage_fields)



lemma min_max_half: "min (max 0 (l::int)) (l div 2) = l div 2"
  by (cases "0 \<le> l") auto

lemma rollover_second:
  "rollover_balance (reset_usage ql (reset_usage ql u force t1) force t2) =
     (if rollover_allowed ql \<and> \<not> force then limit ql div 2 else 0)"
  by (simp add: reset_usage_fields min_max_half)

text \<open>
  Claim C6, as the code has it. A second \<open>reset_quota\<close> leaves the usage counters
  (current, peak, burst used) and the flags (warning triggered, limit exceeded) as the
  first reset left them. The rollover balance is recomputed from the usage, which the
  first reset has set to 0: for a quota with rollover, reset without \<open>force\<close>, the second
  reset sets it to half the limit, so the two balances agree exactly when the first reset
  already carried half the limit (the unused quota was at least that much).
\<close>

theorem quota_reset_twice:
  "\<not> locked c \<and> quota_limits c qt = Some ql \<and> quota_usage c qt = Some u \<longrightarrow>
   (let c1 = snd (reset_quota c qt force t1);
        c2 = snd (reset_quota c1 qt force t2);
        u1 = reset_usage ql u force t1;
        u2 = reset_usage ql u1 force t2
    in fst (reset_quota c qt force t1) = Returns ()
     \<and> fst (reset_quota c1 qt force t2) = Returns ()
     \<and> quota_usage c1 qt = Some u1 \<and> quota_usage c2 qt = Some u2
     \<and> current_usage u2 = current_usage u1 \<and> peak_usage u2 = peak_usage u1
     \<and> burst_used u2 = burst_used u1
     \<and> warning_triggered u2 = warning_triggered u1
     \<and> limit_exceeded u2 = limit_exceeded u1
     \<and> (rollover_balance u2 = rollover_balance u1
          \<longleftrightarrow> (rollover_allowed ql \<and> \<not> force
                 \<longrightarrow> limit ql div 2 \<le> max 0 (limit ql - current_usage u))))"
proof (intro impI)
  assume h: "\<not> locked c \<and> quota_limits c qt = Some ql \<and> quota_usage c qt = Some u"
  let ?u1 = "reset_usage ql u force t1"
  let ?c1 = "c\<lparr>quota_usage := (quota_usage c)(qt \<mapsto> ?u1)\<rparr>"
  have r1: "reset_quota c qt force t1 = (Returns (), ?c1)"
    using h by (simp add: reset_quota_unlocked)
  have r2: "reset_quota ?c1 qt force t2 =
      (Returns (), ?c1\<lparr>quota_usage := (quota_usage ?c1)(qt \<mapsto> reset_usage ql ?u1 force t2)\<rparr>)"
    using h by (simp add: reset_quota_unlocked)
  have roll: "rollover_balance (reset_usage ql ?u1 force t2) = rollover_balance ?u1
      \<longleftrightarrow> (rollover_allowed ql \<and> \<not> force
                 \<longrightarrow> limit ql div 2 \<le> max 0 (limit ql - current_usage u))"
    unfolding rollover_second by (auto simp: reset_usage_fields min_def)
  show "let c1 = snd (reset_quota c qt force t1);
        c2 = snd (reset_quota c1 qt force t2);
        u1 = reset_usage ql u force t1;
        u2 = reset_usage ql u1 force t2
    in fst (reset_quota c qt force t1) = Returns ()
     \<and> fst (reset_quota c1 qt force t2) = Returns ()
     \<and> quota_usage c1 qt = Some u1 \<and> quota_usage c2 qt = Some u2
     \<and> current_usage u2 = current_usage u1 \<and> peak_usage u2 = peak_usage u1
     \<and> burst_used u2 = burst_used u1
     \<and> warning_triggered u2 = warning_triggered u1
     \<and> limit_exceeded u2 = limit_exceeded u1
     \<and> (rollover_balance u2 = rollover_balance u1
          \<longleftrightarrow> (rollover_allowed ql \<and> \<not> force
                 \<longrightarrow> limit ql div 2 \<le> max 0 (limit ql - current_usage u)))"
    unfolding Let_def r1 r2 snd_conv fst_conv
    using roll by (simp add: reset_usage_fields)
qed

text \<open>A run: the default daily request quota (limit 10000, with rollover), unused; both
  resets carry 5000.\<close>

theorem quota_reset_twice_witness:
  "\<not> locked day_client
   \<and> quota_limits day_client REQUESTS_PER_DAY
       = Some (QuotaLimit_new REQUESTS_PER_DAY 10000 DAILY (Some 8000) None True 0)
   \<and> quota_usage day_client REQUESTS_PER_DAY = Some (QuotaUsage_new REQUESTS_PER_DAY 0)
   \<and> map_option rollover_balance
        (quota_usage (snd (reset_quota day_client REQUESTS_PER_DAY False 1)) REQUESTS_PER_DAY)
       = Some 5000
   \<and> map_option rollover_balance
        (quota_usage (snd (reset_quota (snd (reset_quota day_client REQUESTS_PER_DAY False 1))
           REQUESTS_PER_DAY False 2)) REQUESTS_PER_DAY)
       = Some 5000"
  using quota_reset_twice[of day_client REQUESTS_PER_DAY
      "QuotaLimit_new REQUESTS_PER_DAY 10000 DAILY (Some 8000) None True 0"
      "QuotaUsage_new REQUESTS_PER_DAY 0" False 1 2]
  by (simp add: quota_eval)

text \<open>
  Claim C6 as the specification words it (two resets leave the same rollover balance as
  one) fails: the default daily request quota, used up (10000 of 10000), has rollover
  balance 0 after one reset and 5000 after two.
\<close>

theorem quota_reset_twice_counterexample:
  "fst (consume_quota day_client REQUESTS_PER_DAY 10000 0) = Returns True
   \<and> map_option rollover_balance
     (quota_usage (snd (reset_quota (snd (consume_quota day_client REQUESTS_PER_DAY 10000 0))
        REQUESTS_PER_DAY False 1)) REQUESTS_PER_DAY) = Some 0
   \<and> map_option rollover_balance
     (quota_usage (snd (reset_quota (snd (reset_quota
        (snd (consume_quota day_client REQUESTS_PER_DAY 10000 0))
        REQUESTS_PER_DAY False 1)) REQUESTS_PER_DAY False 2)) REQUESTS_PER_DAY) = Some 5000"
  by (simp add: quota_eval)

lemma get_client_quota_global:
  "global_usage (snd (get_client_quota m cid now)) = global_usage m"
  "global_quotas (snd (get_client_quota m cid now)) = global_quotas m"
  by (simp_all add: get_client_quota_def Let_def split: option.splits)













section \<open>Theorems: token bucket\<close>















section \<open>Theorems: circuit breaker\<close>












section \<open>Theorems: isolated wrapper\<close>

lemmas scope_eval = isolated_scope_def aenter_def aexit_def get_current_context_def
  or_unknown_def IsolatedDatabaseOperations_init_def use_database_isolated_def
  use_schema_isolated_def use_database_def use_schema_def restore_original_context_def
  truthy_def set_database_context_def RequestContext_init_def public_schema_def Let_def
  session_a_def session_none_def

lemma captured_use_database:
  "captured s d0 s0 ops \<Longrightarrow> captured s d0 s0 (snd (use_database_isolated dflt ops d ok))"
  by (auto simp: captured_def use_database_isolated_def use_database_def)

lemma captured_use_schema:
  "captured s d0 s0 ops \<Longrightarrow> captured s d0 s0 (snd (use_schema_isolated ops sch ok))"
  by (auto simp: captured_def use_schema_isolated_def use_schema_def)

lemma captured_body:
  "captured s d0 s0 ops \<Longrightarrow> captured s d0 s0 (snd (isolated_body dflt ops calls))"
proof (induction calls arbitrary: ops)
  case Nil
  then show ?case by simp
next
  case (Cons c calls)
  show ?case
  proof (cases c)
    case (UseDatabase d ok)
    obtain r ops' where u: "use_database_isolated dflt ops d ok = (r, ops')"
      by (cases "use_database_isolated dflt ops d ok")
    have c': "captured s d0 s0 ops'" using captured_use_database[OF Cons.prems, of dflt d ok] u by simp
    show ?thesis using UseDatabase u c' Cons.IH[OF c'] by (cases r) simp_all
  next
    case (UseSchema sch ok)
    obtain r ops' where u: "use_schema_isolated ops sch ok = (r, ops')"
      by (cases "use_schema_isolated ops sch ok")
    have c': "captured s d0 s0 ops'" using captured_use_schema[OF Cons.prems, of sch ok] u by simp
    show ?thesis using UseSchema u c' Cons.IH[OF c'] by (cases r) simp_all
  qed
qed

lemma captured_aenter:
  assumes "current_database s = Some d0" "current_schema s = Some s0" "d0 \<noteq> []" "s0 \<noteq> []"
  shows "captured s d0 s0 (aenter (IsolatedDatabaseOperations_init s ctx) True)"
  using assms
  by (simp add: captured_def aenter_def get_current_context_def or_unknown_def
      IsolatedDatabaseOperations_init_def)

lemma captured_aexit:
  assumes "captured s d0 s0 ops" "current_database s = Some d0" "current_schema s = Some s0"
    and "d0 \<noteq> []" "d0 \<noteq> ''Unknown''" "s0 \<noteq> []" "s0 \<noteq> ''Unknown''"
  shows "session (aexit dflt ops True True) = s"
proof (cases "context_changed ops")
  case True
  have "session (aexit dflt ops True True) =
      (session ops)\<lparr>current_database := Some d0, current_schema := Some s0\<rparr>"
    using True assms
    by (simp add: aexit_def captured_def truthy_def restore_original_context_def
        use_database_def use_schema_def)
  also have "\<dots> = s" using assms by (cases s, cases "session ops") (simp add: captured_def)
  finally show ?thesis .
next
  case False
  then show ?thesis using assms by (simp add: aexit_def captured_def)
qed

text \<open>
  Claim C1, as the code has it. A scope enters on a session \<open>s\<close> whose current database
  \<open>d0\<close> and schema \<open>s0\<close> are actual names (selected, not empty and not the word
  \<open>Unknown\<close>, which the wrapper records for a missing value), and reads them
  successfully. Then whatever \<open>use_database_isolated\<close> and \<open>use_schema_isolated\<close> calls
  the body makes, whether they succeed, and whether the body ends with an exception, the
  wrapper releases the session exactly as it was, provided the restoring \<open>USE\<close>
  statements are executed (the connection survived).
\<close>

theorem isolated_scope_restores:
  "current_database s = Some d0 \<and> current_schema s = Some s0
   \<and> d0 \<noteq> [] \<and> d0 \<noteq> ''Unknown'' \<and> s0 \<noteq> [] \<and> s0 \<noteq> ''Unknown''
   \<longrightarrow> snd (isolated_scope default_schema s ctx True calls True True) = s"
proof
  assume h: "current_database s = Some d0 \<and> current_schema s = Some s0
   \<and> d0 \<noteq> [] \<and> d0 \<noteq> ''Unknown'' \<and> s0 \<noteq> [] \<and> s0 \<noteq> ''Unknown''"
  let ?ops0 = "aenter (IsolatedDatabaseOperations_init s ctx) True"
  have c0: "captured s d0 s0 ?ops0" using h captured_aenter by simp
  have c1: "captured s d0 s0 (snd (isolated_body default_schema ?ops0 calls))"
    using captured_body[OF c0] .
  have "session (aexit default_schema (snd (isolated_body default_schema ?ops0 calls)) True True) = s"
    using captured_aexit[OF c1] h by simp
  then show "snd (isolated_scope default_schema s ctx True calls True True) = s"
    by (simp add: isolated_scope_def Let_def case_prod_unfold)
qed

text \<open>A run: two successful changes, then a change that raises and ends the scope.\<close>

theorem isolated_scope_restores_witness:
  "current_database session_a = Some ''DB0'' \<and> current_schema session_a = Some ''S0''
   \<and> isolated_scope public_schema session_a RequestContext_init True
        [UseDatabase ''DB_A'' True, UseSchema ''S_A'' True, UseDatabase ''DB_B'' False] True True
      = (Inl DatabaseError, session_a)"
  using isolated_scope_restores[of session_a "''DB0''" "''S0''" public_schema RequestContext_init
      "[UseDatabase ''DB_A'' True, UseSchema ''S_A'' True, UseDatabase ''DB_B'' False]"]
  by (simp add: scope_eval)

text \<open>
  Claim C1 as the specification words it (for every scope) fails where the wrapper has
  nothing to restore to: on a session with no database selected, and on a session whose
  database is named \<open>Unknown\<close>, the change to \<open>DB_A\<close> is still there when the wrapper
  releases the connection.
\<close>

theorem isolated_scope_counterexample:
  "isolated_scope public_schema session_none RequestContext_init True
        [UseDatabase ''DB_A'' True] True True
      = (Inr (), \<lparr>current_database = Some ''DB_A'', current_schema = Some ''PUBLIC'',
                  autocommit = True\<rparr>)
   \<and> current_database session_none = None
   \<and> isolated_scope public_schema (session_a\<lparr>current_database := Some ''Unknown''\<rparr>)
        RequestContext_init True [UseDatabase ''DB_A'' True] True True
      = (Inr (), \<lparr>current_database = Some ''DB_A'', current_schema = Some ''PUBLIC'',
                  autocommit = True\<rparr>)"
  by (simp add: scope_eval)

section \<open>Theorems: transactional wrapper\<close>

lemmas transaction_eval = transactional_run_def transactional_aenter_def
  TransactionalDatabaseOperations_init_def TransactionManager_init_def RequestContext_init_def
  aenter_def get_current_context_def or_unknown_def session_a_def
  execute_with_transaction_def execute_query_isolated_def begin_explicit_transaction_def
  commit_transaction_def rollback_transaction_def begin_transaction_def
  tm_commit_transaction_def tm_rollback_transaction_def cleanup_transaction_def
  increment_query_count_def add_error_def increment_transaction_operation_def
  increment_transaction_commit_def increment_transaction_rollback_def Let_def

text \<open>
  Claim C8 (commits + rollbacks never exceed operations) does not hold of the code. The
  wrapper's \<open>commit_transaction\<close> and \<open>rollback_transaction\<close> count a commit or a
  rollback whenever the manager's call returns, and that call returns at once when no
  transaction is open: a single \<open>commit_transaction\<close> (or \<open>rollback_transaction\<close>) with
  no \<open>begin_explicit_transaction\<close> before it leaves one commit (one rollback) against no
  operation. \<open>execute_with_transaction\<close> without auto-commit counts the commit before
  the scope commits, so a \<open>COMMIT\<close> that fails is counted as a commit and as a rollback
  of one operation. A begin followed by a commit is counted as it happened.
\<close>

theorem transaction_counters_violated:
  "transactional_run session_a [CommitTransaction True]
     = \<lparr>queries_executed = 0, errors = 0, transaction_operations = 0,
        transaction_commits = 1, transaction_rollbacks = 0\<rparr>
   \<and> \<not> transaction_commits (transactional_run session_a [CommitTransaction True])
        + transaction_rollbacks (transactional_run session_a [CommitTransaction True])
        \<le> transaction_operations (transactional_run session_a [CommitTransaction True])
   \<and> transactional_run session_a [RollbackTransaction True]
     = \<lparr>queries_executed = 0, errors = 0, transaction_operations = 0,
        transaction_commits = 0, transaction_rollbacks = 1\<rparr>
   \<and> transactional_run session_a [ExecuteWithTransaction False True True False True]
     = \<lparr>queries_executed = 1, errors = 0, transaction_operations = 1,
        transaction_commits = 1, transaction_rollbacks = 1\<rparr>
   \<and> transactional_run session_a
        [BeginExplicitTransaction True, CommitTransaction True]
     = \<lparr>queries_executed = 0, errors = 0, transaction_operations = 1,
        transaction_commits = 1, transaction_rollbacks = 0\<rparr>"
  by (simp add: transaction_eval)

section \<open>Theorems: connection pool\<close>

lemmas pool_eval = busy_pool_def busy_connection_def never_released_def released_at_def
  first_available_def acquire_def get_connection_def PooledConnection_init_def

lemma busy_pool_facts:
  "\<not> closed busy_pool" "first_available (connections busy_pool) = None"
  "\<not> int (length (connections busy_pool)) < max_size (pool_config busy_pool)"
  "first_available (never_released j) = None"
  "first_available (released_at n j) = (if j < n then None else Some (busy_connection\<lparr>in_use := False\<rparr>))"
  by (simp_all add: pool_eval)

lemma wait_never:
  "(\<forall>j. first_available (seen (k + j)) = None) \<Longrightarrow> wait_for_connection fuel seen k = StillWaiting"
proof (induction fuel arbitrary: k)
  case 0
  then show ?case by simp
next
  case (Suc fuel)
  have here: "first_available (seen k) = None" using Suc.prems[rule_format, of 0] by simp
  have "\<forall>j. first_available (seen (Suc k + j)) = None"
    using Suc.prems by (metis add_Suc_shift)
  then have "wait_for_connection fuel seen (Suc k) = StillWaiting" by (rule Suc.IH)
  then show ?case using here by simp
qed

lemma wait_found:
  "first_available (seen (k + n)) = Some conn \<Longrightarrow>
   (\<forall>j < n. first_available (seen (k + j)) = None) \<Longrightarrow> n < fuel \<Longrightarrow>
   wait_for_connection fuel seen k = Acquired conn"
proof (induction n arbitrary: k fuel)
  case 0
  then obtain f where "fuel = Suc f" by (cases fuel) auto
  then show ?case using 0 by simp
next
  case (Suc n)
  then obtain f where f: "fuel = Suc f" "n < f" by (cases fuel) auto
  have here: "first_available (seen k) = None" using Suc.prems(2)[rule_format, of 0] by simp
  have found: "first_available (seen (Suc k + n)) = Some conn" using Suc.prems(1) by simp
  have none: "\<forall>j < n. first_available (seen (Suc k + j)) = None"
  proof (intro allI impI)
    fix j assume "j < n"
    then have "Suc j < Suc n" by simp
    then have "first_available (seen (k + Suc j)) = None" using Suc.prems(2) by blast
    then show "first_available (seen (Suc k + j)) = None" by simp
  qed
  have "wait_for_connection f seen (Suc k) = Acquired conn"
    using Suc.IH[OF found none f(2)] .
  then show ?case using here f by simp
qed

text \<open>
  Claim C2, as the code has it. On an open pool \<open>acquire\<close> returns the first available
  healthy connection; when there is none and the pool is below \<open>max_size\<close> it opens a
  new connection and returns that; otherwise it polls, and returns the first available
  healthy connection of the first poll that finds one. The wait has no bound: the code
  has no acquire timeout and no pool-exhausted error, and while no poll finds a
  connection the call is still waiting, however many polls have passed.
\<close>

theorem pool_acquire:
  "\<not> closed pool \<longrightarrow>
     (first_available (connections pool) = Some conn
        \<longrightarrow> acquire pool new_handle now fuel seen = (Acquired conn, pool))
   \<and> (first_available (connections pool) = None
        \<and> int (length (connections pool)) < max_size (pool_config pool)
        \<and> new_handle = Some h
        \<longrightarrow> acquire pool new_handle now fuel seen =
              (Acquired (PooledConnection_init h now),
               pool\<lparr>connections := connections pool @ [PooledConnection_init h now]\<rparr>))
   \<and> (first_available (connections pool) = None
        \<and> \<not> int (length (connections pool)) < max_size (pool_config pool)
        \<and> (\<forall>j < n. first_available (seen j) = None)
        \<and> first_available (seen n) = Some conn \<and> n < fuel
        \<longrightarrow> acquire pool new_handle now fuel seen = (Acquired conn, pool))
   \<and> (first_available (connections pool) = None
        \<and> \<not> int (length (connections pool)) < max_size (pool_config pool)
        \<and> (\<forall>j. first_available (seen j) = None)
        \<longrightarrow> acquire pool new_handle now fuel seen = (StillWaiting, pool))"
proof (intro impI conjI)
  assume "\<not> closed pool" "first_available (connections pool) = Some conn"
  then show "acquire pool new_handle now fuel seen = (Acquired conn, pool)"
    by (simp add: acquire_def get_connection_def)
next
  assume "\<not> closed pool"
    "first_available (connections pool) = None
        \<and> int (length (connections pool)) < max_size (pool_config pool)
        \<and> new_handle = Some h"
  then show "acquire pool new_handle now fuel seen =
              (Acquired (PooledConnection_init h now),
               pool\<lparr>connections := connections pool @ [PooledConnection_init h now]\<rparr>)"
    by (simp add: acquire_def get_connection_def)
next
  assume c: "\<not> closed pool"
    and h: "first_available (connections pool) = None
        \<and> \<not> int (length (connections pool)) < max_size (pool_config pool)
        \<and> (\<forall>j < n. first_available (seen j) = None)
        \<and> first_available (seen n) = Some conn \<and> n < fuel"
  have "wait_for_connection fuel seen 0 = Acquired conn"
    using wait_found[of seen 0 n conn fuel] h by simp
  then show "acquire pool new_handle now fuel seen = (Acquired conn, pool)"
    using c h by (simp add: acquire_def get_connection_def)
next
  assume c: "\<not> closed pool"
    and h: "first_available (connections pool) = None
        \<and> \<not> int (length (connections pool)) < max_size (pool_config pool)
        \<and> (\<forall>j. first_available (seen j) = None)"
  have "wait_for_connection fuel seen 0 = StillWaiting"
    using wait_never[of seen 0 fuel] h by simp
  then show "acquire pool new_handle now fuel seen = (StillWaiting, pool)"
    using c h by (simp add: acquire_def get_connection_def)
qed

text \<open>A run: a full pool of one busy connection; released before the fourth poll, it is
  returned; never released, the call is still waiting after 36000 polls.\<close>

theorem pool_acquire_witness:
  "\<not> closed busy_pool
   \<and> acquire busy_pool None 0 10 (released_at 3) = (Acquired (busy_connection\<lparr>in_use := False\<rparr>), busy_pool)
   \<and> acquire busy_pool None 0 36000 never_released = (StillWaiting, busy_pool)"
  using pool_acquire[of busy_pool "busy_connection\<lparr>in_use := False\<rparr>" None 0 10 "released_at 3" 0 3]
    pool_acquire[of busy_pool busy_connection None 0 36000 never_released 0 0]
  by (simp add: busy_pool_facts)

text \<open>
  Claim C2 as the specification words it (the wait ends with \<open>PoolExhausted\<close> after
  \<open>acquire_timeout\<close>) fails: on the full pool whose connection is never released, with
  the only timeout of the configuration at 30 seconds, the call has raised nothing after
  36000 polls of 0.1 second (an hour).
\<close>

theorem pool_acquire_counterexample:
  "connection_timeout (pool_config busy_pool) = 30
   \<and> acquire busy_pool None 0 36000 never_released = (StillWaiting, busy_pool)"
proof -
  have "wait_for_connection 36000 never_released 0 = StillWaiting"
    by (rule wait_never) (simp add: busy_pool_facts)
  then show ?thesis
    using busy_pool_facts(1-3) by (simp add: acquire_def get_connection_def) (simp add: busy_pool_def)
qed

section \<open>Theorems: SQL validator\<close>


lemma write_verb_token:
  assumes "starts_with_write_verb ts"
  obtains t where "first_statement_token ts = Some t" "t \<in> set ts"
    "token_type t \<in> set forbidden_tokens_readonly"
proof -
  from assms obtain t where t: "first_statement_token ts = Some t"
    "token_type t \<in> set forbidden_tokens_readonly"
    by (auto simp: starts_with_write_verb_def split: option.splits)
  from t(1) have "t \<in> set ts"
    by (auto simp: first_statement_token_def find_Some_iff)
  with t that show ?thesis by blast
qed

lemma analyze_tokens_write_verb:
  assumes "tokens_of an = Some ts" "first_statement_token ts = Some t" "t \<in> set ts"
    "token_type t \<in> set forbidden_tokens_readonly"
  shows "ForbiddenOperation (token_type t) \<in> set (fst (analyze_tokens an True))"
proof -
  have ne: "ts \<noteq> []" using assms(3) by auto
  have "ForbiddenOperation (token_type t)
      \<in> set (map (\<lambda>t. ForbiddenOperation (token_type t))
               (filter (\<lambda>t. token_type t \<in> set forbidden_tokens_readonly) ts))"
    using assms(3,4) by auto
  then show ?thesis using assms(1) ne
    by (simp add: analyze_tokens_def Let_def)
qed

lemma analyze_query_risk:
  "fst (analyze_query an) = NONE \<longleftrightarrow> snd (analyze_query an) = []"
  by (auto simp: analyze_query_def Let_def)

lemma validate_query_cases:
  assumes "analyze_tokens an (readonly_mode v) = (tv, qt)" "tv \<noteq> []"
  shows "(strict_validation v \<longrightarrow> \<not> is_valid (validate_query v q an))
    \<and> 2 \<le> risk_index (risk_level (validate_query v q an))
    \<and> (is_valid (validate_query v q an) \<longrightarrow>
          risk_level (validate_query v q an) = MEDIUM
          \<and> set tv \<subseteq> set (violations (validate_query v q an)))"
proof -
  obtain pr pv where p: "analyze_query an = (pr, pv)" by (cases "analyze_query an")
  have pn: "pr = NONE \<longleftrightarrow> pv = []" using analyze_query_risk[of an] p by simp
  show ?thesis
    using assms p pn
    by (cases pr; cases "strict_validation v"; cases "is_blank q";
        cases "int (length q) > max_query_length v"; cases "structure_violations an = []")
       (auto simp add: validate_query_def Let_def risk_max_def blocked_risk_levels_def)
qed

text \<open>
  What the read-only check achieves in the code: in read-only mode a query whose first
  meaningful token is a write verb gets a risk of at least medium, and with strict
  validation on it is rejected. A result that is valid all the same comes from
  non-strict mode, has risk medium and lists the forbidden operation among its
  violations.
\<close>

lemma readonly_violation_is_medium:
  "readonly_mode v \<and> tokens_of an = Some ts \<and> starts_with_write_verb ts \<longrightarrow>
     (strict_validation v \<longrightarrow> \<not> is_valid (validate_query v q an))
   \<and> 2 \<le> risk_index (risk_level (validate_query v q an))
   \<and> (is_valid (validate_query v q an) \<longrightarrow>
         \<not> strict_validation v
         \<and> risk_level (validate_query v q an) = MEDIUM
         \<and> (\<exists>t. first_statement_token ts = Some t
               \<and> ForbiddenOperation (token_type t) \<in> set (violations (validate_query v q an))))"
proof
  assume h: "readonly_mode v \<and> tokens_of an = Some ts \<and> starts_with_write_verb ts"
  then obtain t where t: "first_statement_token ts = Some t" "t \<in> set ts"
    "token_type t \<in> set forbidden_tokens_readonly"
    using write_verb_token by blast
  obtain tv qt where a: "analyze_tokens an (readonly_mode v) = (tv, qt)"
    by (cases "analyze_tokens an (readonly_mode v)")
  have f: "ForbiddenOperation (token_type t) \<in> set tv"
    using analyze_tokens_write_verb[of an ts t] h t a by simp
  then have ne: "tv \<noteq> []" by auto
  note c = validate_query_cases[OF a ne, of q]
  show "(strict_validation v \<longrightarrow> \<not> is_valid (validate_query v q an))
   \<and> 2 \<le> risk_index (risk_level (validate_query v q an))
   \<and> (is_valid (validate_query v q an) \<longrightarrow>
         \<not> strict_validation v
         \<and> risk_level (validate_query v q an) = MEDIUM
         \<and> (\<exists>t. first_statement_token ts = Some t
               \<and> ForbiddenOperation (token_type t) \<in> set (violations (validate_query v q an))))"
    using c t(1) f by blast
qed


end
